theory Spec2Isabelle
  imports Complex_Main
begin

section \<open>Python values shared by the scripts\<close>

text \<open>
  The scripts are Python: integers are unbounded (\<open>int\<close>), a raised exception is a
  value of \<open>py_error\<close>, and a function that can raise returns \<open>py_error + 'a\<close>.
\<close>

datatype py_error = IndexError | ValueError | RuntimeError string | Cv2Error

text \<open>
  \<open>xs[i]\<close> on a Python list: a negative index counts from the end, an index out of
  range raises IndexError.
\<close>

definition py_getitem :: "'a list \<Rightarrow> int \<Rightarrow> py_error + 'a" where
  "py_getitem xs i =
     (if 0 \<le> i \<and> i < int (length xs) then Inr (xs ! nat i)
      else if i < 0 \<and> - int (length xs) \<le> i then Inr (xs ! nat (int (length xs) + i))
      else Inl IndexError)"

section \<open>c_gazeToBoard.py: Idx2Timestamp\<close>

text \<open>
  \<^verbatim>\<open>
  def get(self, idx):
      if idx < len(self.timestamps):
          return self.timestamps[int(idx)]
      else:
          sys.stderr.write("[WARNING] %d requested (from %d)\n" % ( idx, len(self.timestamps) ) )
          return self.timestamps[-1]
  \<close>
  The result pairs what was written to stderr (one entry \<open>(idx, len)\<close> per warning
  line) with the returned timestamp or the exception raised by the list access.
\<close>

definition Idx2Timestamp_get :: "real list \<Rightarrow> int \<Rightarrow> (int \<times> nat) list \<times> (py_error + real)" where
  "Idx2Timestamp_get timestamps idx =
     (if idx < int (length timestamps)
      then ([], py_getitem timestamps idx)
      else ([(idx, length timestamps)], py_getitem timestamps (- 1)))"

section \<open>e2_determineFixationIntervals.py: matching fixations to targets\<close>

text \<open>
  The classifier's output \<open>fix\<close> is a dictionary of equally long arrays
  (\<open>fix['xpos']\<close>, \<open>fix['ypos']\<close>, \<open>fix['dur']\<close>, \<open>fix['startT']\<close>, \<open>fix['endT']\<close>);
  it is modelled as one list of records, entry \<open>k\<close> holding position \<open>k\<close> of every array.
  Positions and durations are finite here (the reals); \<open>math.inf\<close> is the extra
  distance \<open>Inf\<close>.
\<close>

record fixation =
  xpos :: real
  ypos :: real
  dur :: real
  startT :: real
  endT :: real

datatype dist = Fin real | Inf

fun dist_less :: "dist \<Rightarrow> dist \<Rightarrow> bool" where
  "dist_less (Fin a) (Fin b) = (a < b)"
| "dist_less (Fin a) Inf = True"
| "dist_less Inf d = False"

definition hypot :: "real \<Rightarrow> real \<Rightarrow> real" where
  "hypot x y = sqrt (x\<^sup>2 + y\<^sup>2)"

text \<open>
  \<open>np.argmin\<close>: the index of the first occurrence of the smallest entry, ValueError on
  an empty array. The scan keeps the best index and value seen so far and replaces them
  only by a strictly smaller entry.
\<close>

fun argmin_scan :: "dist list \<Rightarrow> nat \<Rightarrow> nat \<Rightarrow> dist \<Rightarrow> nat" where
  "argmin_scan [] i best v = best"
| "argmin_scan (d # ds) i best v =
     (if dist_less d v then argmin_scan ds (Suc i) i d else argmin_scan ds (Suc i) best v)"

definition np_argmin :: "dist list \<Rightarrow> py_error + nat" where
  "np_argmin ds = (case ds of [] \<Rightarrow> Inl ValueError | d # rest \<Rightarrow> Inr (argmin_scan rest 1 0 d))"

text \<open>
  Lines 108 to 110, for one target \<open>t\<close>:
  \<^verbatim>\<open>
  dist                    = np.hypot(fix['xpos']-targets[t][0], fix['ypos']-targets[t][1])
  dist[used]              = math.inf
  dist[fix['dur']<minDur] = math.inf
  \<close>
\<close>

definition target_dist :: "fixation list \<Rightarrow> bool list \<Rightarrow> real \<Rightarrow> real \<times> real \<Rightarrow> dist list" where
  "target_dist fix used minDur t =
     (let dist0 = map (\<lambda>f. Fin (hypot (xpos f - fst t) (ypos f - snd t))) fix;
          dist1 = map (\<lambda>(d, u). if u then Inf else d) (zip dist0 used);
          dist2 = map (\<lambda>(d, f). if dur f < minDur then Inf else d) (zip dist1 fix)
      in dist2)"

definition minDur :: real where
  "minDur = 150"

text \<open>
  Lines 103 to 113, the loop \<open>for i,t in zip(range(len(targets)),targets)\<close>. The
  dictionary \<open>targets\<close> is the list of its \<open>(ID, center)\<close> items in iteration order.
  \<^verbatim>\<open>
  if np.all(used):
      continue
  ...
  iFix        = np.argmin(dist)
  selected[i] = iFix
  used[iFix]  = True
  \<close>
\<close>

fun select_loop ::
  "fixation list \<Rightarrow> (int \<times> real \<times> real) list \<Rightarrow> nat \<Rightarrow> bool list \<Rightarrow> int list \<Rightarrow>
   py_error + (bool list \<times> int list)" where
  "select_loop fix [] i used selected = Inr (used, selected)"
| "select_loop fix ((t, c) # ts) i used selected =
     (if list_all (\<lambda>u. u) used then select_loop fix ts (Suc i) used selected
      else (case np_argmin (target_dist fix used minDur c) of
              Inl e \<Rightarrow> Inl e
            | Inr iFix \<Rightarrow>
                select_loop fix ts (Suc i) (used[iFix := True]) (selected[i := int iFix])))"

text \<open>
  Lines 99 to 113: \<open>used\<close> starts all False, \<open>selected\<close> starts at the sentinel -999
  (target not assigned), and the result is \<open>selected\<close> after the loop.
\<close>

definition select_fixations :: "fixation list \<Rightarrow> (int \<times> real \<times> real) list \<Rightarrow> py_error + int list" where
  "select_fixations fix targets =
     (case select_loop fix targets 0 (replicate (length fix) False)
             (replicate (length targets) (- 999)) of
        Inl e \<Rightarrow> Inl e
      | Inr (used, selected) \<Rightarrow> Inr selected)"

text \<open>
  Lines 137 to 142: the rows of \<open>analysisInterval.tsv\<close>, one per target whose entry in
  \<open>selected\<close> is not the sentinel: the target's ID with the start and end timestamps of
  the selected fixation.
\<close>

fun interval_rows :: "fixation list \<Rightarrow> (int \<times> real \<times> real) list \<Rightarrow> int list \<Rightarrow> (int \<times> real \<times> real) list" where
  "interval_rows fix ((t, c) # ts) (s # ss) =
     (if s = - 999 then interval_rows fix ts ss
      else (t, startT (fix ! nat s), endT (fix ! nat s)) # interval_rows fix ts ss)"
| "interval_rows fix ts ss = []"

section \<open>b_detectMarkers.py: homography and pose per frame\<close>

text \<open>
  A marker has four corners, top left first and clockwise. \<open>known\<close> is the part of
  \<open>knownMarkers\<close> with numeric keys (the ArUco markers of the board, each with its four
  corners); the keys of the gaze targets start with \<open>t\<close> and are never equal to the key
  \<open>'%d' % id\<close> of a detected marker. What \<open>cv2.aruco.detectMarkers\<close> returns is the list
  of detected \<open>(id, corners)\<close> pairs in detection order (\<open>ids\<close> and \<open>corners\<close> are arrays
  of one length), or \<open>None\<close> for \<open>ids\<close> when nothing was detected.
\<close>

type_synonym point = "real \<times> real"
type_synonym quad = "point \<times> point \<times> point \<times> point"

definition quad_points :: "quad \<Rightarrow> point list" where
  "quad_points q = (case q of (topl, topr, botr, botl) \<Rightarrow> [topl, topr, botr, botl])"

text \<open>
  The OpenCV and numpy operations the script calls are parameters of the model.

  \<^item> \<open>undistortPoints\<close> is \<open>cv2.undistortPoints(x, cameraMatrix, distCoeffs, P=cameraMatrix)\<close>
    on the corners of one detected marker. The script does not fix the shape of the array
    it gets back and indexes it with \<open>[0]\<close>, so the result is modelled as the list of its
    rows along the first axis, each row a list of points: an array of shape \<open>(1, 4, 2)\<close> is
    one row of four points, an array of shape \<open>(4, 1, 2)\<close> is four rows of one point each.
  \<^item> \<open>findHomography\<close> is the matrix of \<open>cv2.findHomography(pts_src, pts_dst)\<close>, or the
    exception the call raises (\<open>cv2.error\<close>, as on two point lists of different lengths).
  \<^item> \<open>estimatePoseBoard\<close> is \<open>cv2.aruco.estimatePoseBoard\<close> on the detected (not
    undistorted) corners and ids, or the exception it raises.
  \<^item> \<open>targetInImage\<close> is lines 190 to 192 (the centre target through the inverse of the
    homography and \<open>distortPoint\<close>), or the exception raised there (\<open>np.linalg.inv\<close> on
    a matrix that has no inverse).
\<close>

record ('h, 'v) cv_ops =
  undistortPoints :: "quad \<Rightarrow> point list list"
  findHomography :: "point list \<Rightarrow> point list \<Rightarrow> py_error + 'h"
  estimatePoseBoard :: "(int \<times> quad) list \<Rightarrow> py_error + int \<times> 'v \<times> 'v"
  targetInImage :: "'h \<Rightarrow> py_error + point"

text \<open>
  Lines 56 to 62 of \<open>estimateTransform\<close>: for each detected marker whose key is known,
  \<open>detectedCorners[i][0]\<close>, the first row of the marker's array of undistorted corners, is
  appended to \<open>pts_src\<close> (an array without rows raises IndexError) and the four known
  corners are appended to \<open>pts_dst\<close>.
\<close>

fun matching_corners ::
  "(int \<rightharpoonup> quad) \<Rightarrow> (int \<times> point list list) list \<Rightarrow> py_error + point list \<times> point list" where
  "matching_corners known [] = Inr ([], [])"
| "matching_corners known ((i, c) # rest) =
     (case known i of
        None \<Rightarrow> matching_corners known rest
      | Some k \<Rightarrow>
          (case c of
             [] \<Rightarrow> Inl IndexError
           | first_row # other_rows \<Rightarrow>
               (case matching_corners known rest of
                  Inl err \<Rightarrow> Inl err
                | Inr (pts_src, pts_dst) \<Rightarrow> Inr (first_row @ pts_src, quad_points k @ pts_dst))))"

text \<open>
  \<open>estimateTransform\<close>, lines 54 to 72: \<open>(None, False)\<close> with fewer than 4 collected image
  points, otherwise the homography of the two point lists and \<open>True\<close>.
\<close>

definition estimateTransform ::
  "(point list \<Rightarrow> point list \<Rightarrow> py_error + 'h) \<Rightarrow> (int \<rightharpoonup> quad) \<Rightarrow> (int \<times> point list list) list \<Rightarrow>
   py_error + 'h option \<times> bool" where
  "estimateTransform homography known detected =
     (case matching_corners known detected of
        Inl err \<Rightarrow> Inl err
      | Inr (pts_src, pts_dst) \<Rightarrow>
          if length pts_src < 4 then Inr (None, False)
          else (case homography pts_src pts_dst of
                  Inl err \<Rightarrow> Inl err
                | Inr h \<Rightarrow> Inr (Some h, True)))"

text \<open>One row of \<open>transformations.tsv\<close> (lines 203 to 209).\<close>

record ('h, 'v) pose_row =
  frame_idx :: nat
  transformation :: 'h
  poseNMarker :: int
  poseRvec :: 'v
  poseTvec :: 'v
  centerTarget :: point

text \<open>
  Lines 180 to 209, for one frame: the row written for it, \<open>None\<close> when no row is
  written, or the exception that ends the run.
\<close>

definition process_frame ::
  "('h, 'v) cv_ops \<Rightarrow> (int \<rightharpoonup> quad) \<Rightarrow> nat \<Rightarrow> (int \<times> quad) list option \<Rightarrow>
   py_error + ('h, 'v) pose_row option" where
  "process_frame cv known idx detection =
     (case detection of
        None \<Rightarrow> Inr None
      | Some detected \<Rightarrow>
          if 4 \<le> length detected then
            (let cornersU = map (\<lambda>(i, c). (i, undistortPoints cv c)) detected
             in case estimateTransform (findHomography cv) known cornersU of
                  Inl err \<Rightarrow> Inl err
                | Inr (Some H, True) \<Rightarrow>
                    (case estimatePoseBoard cv detected of
                       Inl err \<Rightarrow> Inl err
                     | Inr (nMarkersUsed, Rvec, Tvec) \<Rightarrow>
                         (case targetInImage cv H of
                            Inl err \<Rightarrow> Inl err
                          | Inr target \<Rightarrow>
                              Inr (Some \<lparr>frame_idx = idx, transformation = H,
                                         poseNMarker = nMarkersUsed, poseRvec = Rvec,
                                         poseTvec = Tvec, centerTarget = target\<rparr>)))
                | Inr other \<Rightarrow> Inr None)
          else Inr None)"

text \<open>The detected markers whose id is a key of \<open>known\<close>, in detection order.\<close>

definition matched :: "(int \<rightharpoonup> quad) \<Rightarrow> (int \<times> 'a) list \<Rightarrow> (int \<times> 'a) list" where
  "matched known detected = filter (\<lambda>(i, c). known i \<noteq> None) detected"

text \<open>
  The two point lists of a frame as \<open>estimateTransform\<close> collects them when every matched
  marker's undistorted array has a row: on the image side the points of the first row of
  each matched marker's array, on the board side the four known corners of each matched
  marker, both in detection order.
\<close>

definition first_row :: "point list list \<Rightarrow> point list" where
  "first_row rows = (case rows of [] \<Rightarrow> [] | r # rs \<Rightarrow> r)"

definition image_points :: "('h, 'v) cv_ops \<Rightarrow> (int \<rightharpoonup> quad) \<Rightarrow> (int \<times> quad) list \<Rightarrow> point list" where
  "image_points cv known det =
     concat (map (\<lambda>(i, c). first_row (undistortPoints cv c)) (matched known det))"


section \<open>Floating-point values with not-a-number\<close>

text \<open>
  A numpy float is a real number or not-a-number: \<open>None\<close> is \<open>nan\<close>. Rounding and the
  infinities are not modelled. Arithmetic gives \<open>nan\<close> as soon as an operand is \<open>nan\<close>;
  a division by zero gives \<open>nan\<close> (numpy's \<open>0/0\<close>; the scripts divide by zero only where
  the dividend is zero too, or behind a guard).
\<close>

type_synonym fl = "real option"
type_synonym vec2 = "fl \<times> fl"
type_synonym vec3 = "fl \<times> fl \<times> fl"
type_synonym mat33 = "vec3 \<times> vec3 \<times> vec3"

definition nan :: fl where
  "nan = None"

definition isnan :: "fl \<Rightarrow> bool" where
  "isnan a = (a = None)"

definition lift1 :: "(real \<Rightarrow> real) \<Rightarrow> fl \<Rightarrow> fl" where
  "lift1 f a = (case a of None \<Rightarrow> None | Some u \<Rightarrow> Some (f u))"

definition lift2 :: "(real \<Rightarrow> real \<Rightarrow> real) \<Rightarrow> fl \<Rightarrow> fl \<Rightarrow> fl" where
  "lift2 f a b =
     (case a of None \<Rightarrow> None
      | Some u \<Rightarrow> (case b of None \<Rightarrow> None | Some v \<Rightarrow> Some (f u v)))"

definition fadd :: "fl \<Rightarrow> fl \<Rightarrow> fl" where
  "fadd = lift2 (\<lambda>u v. u + v)"

definition fsub :: "fl \<Rightarrow> fl \<Rightarrow> fl" where
  "fsub = lift2 (\<lambda>u v. u - v)"

definition fmul :: "fl \<Rightarrow> fl \<Rightarrow> fl" where
  "fmul = lift2 (\<lambda>u v. u * v)"

definition fdiv :: "fl \<Rightarrow> fl \<Rightarrow> fl" where
  "fdiv a b = (if b = Some 0 then None else lift2 (\<lambda>u v. u / v) a b)"

definition fneg :: "fl \<Rightarrow> fl" where
  "fneg = lift1 (\<lambda>u. - u)"

definition fin3 :: "real \<times> real \<times> real \<Rightarrow> vec3" where
  "fin3 p = (case p of (a, b, c) \<Rightarrow> (Some a, Some b, Some c))"

definition vadd :: "vec3 \<Rightarrow> vec3 \<Rightarrow> vec3" where
  "vadd p q = (case p of (a, b, c) \<Rightarrow> case q of (d, e, f) \<Rightarrow> (fadd a d, fadd b e, fadd c f))"

definition vsub :: "vec3 \<Rightarrow> vec3 \<Rightarrow> vec3" where
  "vsub p q = (case p of (a, b, c) \<Rightarrow> case q of (d, e, f) \<Rightarrow> (fsub a d, fsub b e, fsub c f))"

definition smul :: "fl \<Rightarrow> vec3 \<Rightarrow> vec3" where
  "smul k p = (case p of (a, b, c) \<Rightarrow> (fmul k a, fmul k b, fmul k c))"

definition vneg :: "vec3 \<Rightarrow> vec3" where
  "vneg p = (case p of (a, b, c) \<Rightarrow> (fneg a, fneg b, fneg c))"

definition dot :: "vec3 \<Rightarrow> vec3 \<Rightarrow> fl" where
  "dot p q = (case p of (a, b, c) \<Rightarrow> case q of (d, e, f) \<Rightarrow>
     fadd (fadd (fmul a d) (fmul b e)) (fmul c f))"

text \<open>\<open>np.matmul\<close> of a 3x3 matrix (given by its rows) and a vector; the transpose.\<close>

definition mat_vec :: "mat33 \<Rightarrow> vec3 \<Rightarrow> vec3" where
  "mat_vec M p = (case M of (r0, r1, r2) \<Rightarrow> (dot r0 p, dot r1 p, dot r2 p))"

definition transpose33 :: "mat33 \<Rightarrow> mat33" where
  "transpose33 M = (case M of ((a, b, c), (d, e, f), (g, h, i)) \<Rightarrow> ((a, d, g), (b, e, h), (c, f, i)))"

text \<open>
  \<open>np.matmul(np.hstack((R, t)), np.append(p, 1.))\<close>: the 3x4 matrix \<open>[R | t]\<close> applied to
  the homogeneous point, row by row \<open>R[k,0]*p[0] + R[k,1]*p[1] + R[k,2]*p[2] + t[k]*1\<close>.
\<close>

definition hom_apply :: "mat33 \<Rightarrow> vec3 \<Rightarrow> vec3 \<Rightarrow> vec3" where
  "hom_apply R t p = vadd (mat_vec R p) (smul (Some 1) t)"

definition mat_neg :: "mat33 \<Rightarrow> mat33" where
  "mat_neg M = (case M of (r0, r1, r2) \<Rightarrow> (vneg r0, vneg r1, vneg r2))"

definition normalize :: "vec3 \<Rightarrow> vec3" where
  "normalize v =
     (let n = lift1 sqrt (dot v v)
      in case v of (a, b, c) \<Rightarrow> (fdiv a n, fdiv b n, fdiv c n))"

section \<open>c_gazeToBoard.py: gaze on the board, per gaze sample\<close>

text \<open>
  One entry of \<open>gazeData.tsv\<close> (class \<open>Gaze\<close>; the 2D video position is only drawn).
\<close>

record gaze =
  gaze_ts :: real
  world3D :: vec3
  lGazeVec :: vec3
  gaze_lGazeOrigin :: vec3
  rGazeVec :: vec3
  gaze_rGazeOrigin :: vec3

text \<open>One row of \<open>gazeWorldPos.tsv\<close>, its fields named as the header (lines 146 to 153).\<close>

record gaze_row =
  row_frame_idx :: int
  frame_timestamp :: real
  gaze_timestamp :: real
  planePoint :: vec3
  planeNormal :: vec3
  gazeCam3D_vidPos :: vec3
  gazeBoard2D_vidPos :: vec2
  gazeOriLeft :: vec3
  gazeCam3DLeft :: vec3
  gazeBoard2DLeft :: vec2
  gazeOriRight :: vec3
  gazeCam3DRight :: vec3
  gazeBoard2DRight :: vec2

text \<open>
  Lines 226 to 246, the body of the loop over the two eyes: the eye's direction and origin
  go through \<open>RtCam\<close>, the ray is intersected with the board, and the intersection is
  taken to board coordinates only when its first coordinate is not \<open>nan\<close>. The result is
  the transformed origin, the intersection, and the board position that is stored in
  \<open>offsets[eye]\<close> (\<open>None\<close> when \<open>[nan, nan]\<close> is written instead).
  \<open>intersect\<close> is \<open>utils.intersect_plane_ray\<close>, \<open>toBoard\<close> is the product with
  \<open>RtBoardInv\<close>.
\<close>

definition eye_to_board ::
  "(vec3 \<Rightarrow> vec3 \<Rightarrow> vec3 \<Rightarrow> vec3 \<Rightarrow> vec3) \<Rightarrow> mat33 \<Rightarrow> vec3 \<Rightarrow> vec3 \<Rightarrow> vec3 \<Rightarrow> (vec3 \<Rightarrow> vec3) \<Rightarrow>
   vec3 \<Rightarrow> vec3 \<Rightarrow> vec3 \<times> vec3 \<times> vec2 option" where
  "eye_to_board intersect RCam cameraPosition boardNormal boardPoint toBoard gVec gOri =
     (let gVec' = hom_apply RCam cameraPosition gVec;
          gOri' = hom_apply RCam cameraPosition gOri;
          gBoard = intersect boardNormal boardPoint gVec' gOri'
      in (gOri', gBoard,
          if \<not> isnan (fst gBoard)
          then (case toBoard gBoard of (bx, by, bz) \<Rightarrow> Some (bx, by))
          else None))"

definition written2D :: "vec2 option \<Rightarrow> vec2" where
  "written2D p = (case p of Some xy \<Rightarrow> xy | None \<Rightarrow> (nan, nan))"

text \<open>
  Lines 192 to 199: the board normal \<open>np.matmul(RBoard, [0,0,1.])\<close>, the board origin
  \<open>np.matmul(RtBoard, [0,0,0.,1.])\<close>, and the product with
  \<open>RtBoardInv = np.hstack((RBoard.T, np.matmul(-RBoard.T, tVec)))\<close>.
\<close>

definition board_normal :: "mat33 \<Rightarrow> vec3" where
  "board_normal RBoard = mat_vec RBoard (Some 0, Some 0, Some 1)"

definition board_point :: "mat33 \<Rightarrow> vec3 \<Rightarrow> vec3" where
  "board_point RBoard tVec = hom_apply RBoard tVec (Some 0, Some 0, Some 0)"

definition to_board :: "mat33 \<Rightarrow> vec3 \<Rightarrow> vec3 \<Rightarrow> vec3" where
  "to_board RBoard tVec =
     hom_apply (transpose33 RBoard) (mat_vec (mat_neg (transpose33 RBoard)) tVec)"

text \<open>
  Lines 187 to 263 for one gaze sample of frame \<open>idx\<close>. \<open>boardPose\<close> holds \<open>rVec\<close> and
  \<open>tVec\<close>, two dictionaries with the same keys (lines 139 to 142); \<open>Rodrigues\<close> is
  \<open>cv2.Rodrigues(...)[0]\<close>; \<open>RCam\<close> and \<open>cameraPosition\<close> are the camera extrinsics. The
  result is the row written (none when the frame has no pose) and the dictionary
  \<open>offsets\<close>. Drawing is left out.
\<close>

definition gaze_to_board ::
  "(vec3 \<Rightarrow> vec3 \<Rightarrow> vec3 \<Rightarrow> vec3 \<Rightarrow> vec3) \<Rightarrow> ('r \<Rightarrow> mat33) \<Rightarrow> mat33 \<Rightarrow> vec3 \<Rightarrow>
   (int \<rightharpoonup> 'r \<times> vec3) \<Rightarrow> int \<Rightarrow> real \<Rightarrow> gaze \<Rightarrow> gaze_row option \<times> (string \<rightharpoonup> vec2)" where
  "gaze_to_board intersect Rodrigues RCam cameraPosition boardPose idx frame_ts g =
     (case boardPose idx of
        None \<Rightarrow> (None, Map.empty)
      | Some (rVec, tVec) \<Rightarrow>
          (let RBoard = Rodrigues rVec;
               boardNormal = board_normal RBoard;
               boardPoint = board_point RBoard tVec;
               g3D = normalize (mat_vec RCam (world3D g));
               g3Board = intersect boardNormal boardPoint g3D (Some 0, Some 0, Some 0);
               vid2D = (case to_board RBoard tVec g3Board of (bx, by, bz) \<Rightarrow> (bx, by));
               left = eye_to_board intersect RCam cameraPosition boardNormal boardPoint
                        (to_board RBoard tVec) (lGazeVec g) (gaze_lGazeOrigin g);
               right = eye_to_board intersect RCam cameraPosition boardNormal boardPoint
                        (to_board RBoard tVec) (rGazeVec g) (gaze_rGazeOrigin g);
               offsets0 = [''3D_gaze_point'' \<mapsto> vid2D];
               offsets1 = (case snd (snd left) of None \<Rightarrow> offsets0
                           | Some xy \<Rightarrow> offsets0(''left'' \<mapsto> xy));
               offsets2 = (case snd (snd right) of None \<Rightarrow> offsets1
                           | Some xy \<Rightarrow> offsets1(''right'' \<mapsto> xy));
               offsets3 = (case (offsets2 ''left'', offsets2 ''right'') of
                             (Some (lx, ly), Some (rx, ry)) \<Rightarrow>
                               offsets2(''average'' \<mapsto>
                                 (fdiv (fadd lx rx) (Some 2), fdiv (fadd ly ry) (Some 2)))
                           | _ \<Rightarrow> offsets2)
           in (Some \<lparr>row_frame_idx = idx, frame_timestamp = frame_ts, gaze_timestamp = gaze_ts g,
                     planePoint = boardPoint, planeNormal = boardNormal,
                     gazeCam3D_vidPos = g3Board, gazeBoard2D_vidPos = vid2D,
                     gazeOriLeft = fst left, gazeCam3DLeft = fst (snd left),
                     gazeBoard2DLeft = written2D (snd (snd left)),
                     gazeOriRight = fst right, gazeCam3DRight = fst (snd right),
                     gazeBoard2DRight = written2D (snd (snd right))\<rparr>,
               offsets3)))"

text \<open>
  Lines 134 to 142: the pose table \<open>boardPose.tsv\<close> as the script reads it. Of each row
  it reads \<open>frame_idx\<close> and the columns whose name contains \<open>poseRvec\<close> or \<open>poseTvec\<close>;
  \<open>bp_rest\<close> is what else the row holds (a homography, when the table has one per
  frame). A later row for a frame replaces an earlier one.
\<close>

record ('r, 'x) board_pose_entry =
  bp_frame_idx :: int
  bp_rVec :: 'r
  bp_tVec :: vec3
  bp_rest :: 'x

definition read_board_pose :: "('r, 'x) board_pose_entry list \<Rightarrow> (int \<rightharpoonup> 'r \<times> vec3)" where
  "read_board_pose table =
     fold (\<lambda>entry poses. poses(bp_frame_idx entry \<mapsto> (bp_rVec entry, bp_tVec entry))) table Map.empty"

section \<open>Gaze on the board, as read back from gazeWorldPos.tsv\<close>

text \<open>
  One sample of \<open>utils.GazeWorld\<close>, with the fields the scripts read: per eye the ray
  origin, the 3D intersection with the board (camera frame) and the 2D board position, and
  the same two positions for the 3D-gaze-point ray and for the homography.
  \<open>gazeWorld\<close> is a dictionary from frame index to the frame's samples: the list of its
  items in iteration order.
\<close>

record gaze_world =
  ts :: real
  lGazeOrigin :: vec3
  rGazeOrigin :: vec3
  lGaze3D :: vec3
  rGaze3D :: vec3
  lGaze2D :: vec2
  rGaze2D :: vec2
  gaze3DRay :: vec3
  gaze2DRay :: vec2
  gaze3DHomography :: vec3
  gaze2DHomography :: vec2

text \<open>
  \<open>{k:v for (k,v) in gazeWorld.items() if k>=analyzeFrames[ival*2] and
  k<=analyzeFrames[ival*2+1]}\<close>, flattened to \<open>(frame index, sample)\<close> pairs as the
  comprehensions \<open>for v in gazeWorldToAnal.values() for s in v\<close> do.
\<close>

definition interval_samples :: "(int \<times> gaze_world list) list \<Rightarrow> int \<Rightarrow> int \<Rightarrow> (int \<times> gaze_world) list" where
  "interval_samples gazeWorld lo hi =
     concat (map (\<lambda>(k, v). map (\<lambda>s. (k, s)) v)
                 (filter (\<lambda>(k, v). lo \<le> k \<and> k \<le> hi) gazeWorld))"

section \<open>e1_computeOffsetsToTargets.py: offsets to the targets\<close>

text \<open>
  \<open>math.atan2(y, x)\<close> on finite arguments (signed zeros apart), and lines 79 to 96: the
  origin, the 3D gaze point and the board position of method \<open>e\<close> in \<open>range(4)\<close>
  (0 left eye, 1 right eye, 2 ray of the 3D gaze point, 3 homography).
\<close>

definition atan2 :: "real \<Rightarrow> real \<Rightarrow> real" where
  "atan2 v u =
     (if 0 < u then arctan (v / u)
      else if u < 0 then (if 0 \<le> v then arctan (v / u) + pi else arctan (v / u) - pi)
      else if 0 < v then pi / 2
      else if v < 0 then - (pi / 2)
      else 0)"

definition zeros3 :: vec3 where
  "zeros3 = (Some 0, Some 0, Some 0)"

definition method_inputs :: "nat \<Rightarrow> gaze_world \<Rightarrow> vec3 \<times> vec3 \<times> vec2" where
  "method_inputs e s =
     (if e = 0 then (lGazeOrigin s, lGaze3D s, lGaze2D s)
      else if e = 1 then (rGazeOrigin s, rGaze3D s, rGaze2D s)
      else if e = 2 then (zeros3, gaze3DRay s, gaze2DRay s)
      else (zeros3, gaze3DHomography s, gaze2DHomography s))"

text \<open>
  Lines 99 to 109 for one sample, one method and one target at board position
  \<open>(tx, ty)\<close>. \<open>angle_between\<close> is \<open>utils.angle_between\<close>.
\<close>

definition target_offset ::
  "(vec3 \<Rightarrow> vec3 \<Rightarrow> fl) \<Rightarrow> mat33 \<Rightarrow> vec3 \<Rightarrow> gaze_world \<Rightarrow> nat \<Rightarrow> real \<times> real \<Rightarrow> vec2" where
  "target_offset angle_between RBoard tVec s e t =
     (case method_inputs e s of
        (ori, gazePoint, gazeBoard) \<Rightarrow>
          (let target = hom_apply RBoard tVec (Some (fst t), Some (snd t), Some 0);
               vGaze = vsub gazePoint ori;
               vTarget = vsub target ori;
               ang2D = angle_between vTarget vGaze;
               onBoardAngle = lift2 atan2 (fsub (snd gazeBoard) (Some (snd t)))
                                          (fsub (fst gazeBoard) (Some (fst t)))
           in (fmul ang2D (lift1 cos onBoardAngle), fmul ang2D (lift1 sin onBoardAngle))))"

text \<open>
  Lines 69 to 109: \<open>offset[s, e, ti, :]\<close> for one sample of an interval. The array starts
  as \<open>nan\<close> everywhere, and a sample whose frame is not in \<open>rVec\<close> is skipped.
\<close>

definition sample_offsets ::
  "(vec3 \<Rightarrow> vec3 \<Rightarrow> fl) \<Rightarrow> ('r \<Rightarrow> mat33) \<Rightarrow> (int \<rightharpoonup> 'r \<times> vec3) \<Rightarrow> (int \<times> real \<times> real) list \<Rightarrow>
   int \<times> gaze_world \<Rightarrow> vec2 list list" where
  "sample_offsets angle_between Rodrigues boardPose targets ks =
     (case boardPose (fst ks) of
        None \<Rightarrow> map (\<lambda>e. map (\<lambda>t. (nan, nan)) targets) [0..<4]
      | Some (rVec, tVec) \<Rightarrow>
          map (\<lambda>e. map (\<lambda>t. target_offset angle_between (Rodrigues rVec) tVec (snd ks) e (snd t))
                      targets) [0..<4])"

text \<open>
  Lines 55 to 109 for one interval. The samples of the interval are stacked with
  \<open>np.vstack\<close> (lines 57 to 67), which raises ValueError on an empty list: an interval
  without samples ends the run. Otherwise the result is the array \<open>offset\<close>.
\<close>

definition interval_offsets ::
  "(vec3 \<Rightarrow> vec3 \<Rightarrow> fl) \<Rightarrow> ('r \<Rightarrow> mat33) \<Rightarrow> (int \<rightharpoonup> 'r \<times> vec3) \<Rightarrow> (int \<times> real \<times> real) list \<Rightarrow>
   (int \<times> gaze_world list) list \<Rightarrow> int \<Rightarrow> int \<Rightarrow> py_error + vec2 list list list" where
  "interval_offsets angle_between Rodrigues boardPose targets gazeWorld lo hi =
     (if interval_samples gazeWorld lo hi = [] then Inl ValueError
      else Inr (map (sample_offsets angle_between Rodrigues boardPose targets)
                    (interval_samples gazeWorld lo hi)))"

section \<open>e2_determineFixationIntervals.py: the data given to the fixation classifier\<close>

text \<open>
  Lines 72 to 75: \<open>np.any(np.logical_not(np.isnan([s.lGaze2D for v in gazeWorld.values()
  for s in v])))\<close>, over all samples of the recording.
\<close>

definition has_data :: "(gaze_world \<Rightarrow> vec2) \<Rightarrow> (int \<times> gaze_world list) list \<Rightarrow> bool" where
  "has_data field gazeWorld =
     list_ex (\<lambda>s. \<not> isnan (fst (field s)) \<or> \<not> isnan (snd (field s)))
             (concat (map snd gazeWorld))"

text \<open>
  The dictionary \<open>data\<close>: \<open>time\<close> with either the four series \<open>L_X, L_Y, R_X, R_Y\<close> or the
  two series \<open>average_X, average_Y\<close>.
\<close>

datatype i2mc_data =
  Binocular "real list" "fl list" "fl list" "fl list" "fl list"
| Average "real list" "fl list" "fl list"

text \<open>Lines 77 to 92, for the interval from frame \<open>lo\<close> to frame \<open>hi\<close>.\<close>

definition collect_data :: "(int \<times> gaze_world list) list \<Rightarrow> int \<Rightarrow> int \<Rightarrow> py_error + i2mc_data" where
  "collect_data gazeWorld lo hi =
     (let qHasLeft = has_data lGaze2D gazeWorld;
          qHasRight = has_data rGaze2D gazeWorld;
          qHasRay = has_data gaze2DRay gazeWorld;
          qHasHomography = has_data gaze2DHomography gazeWorld;
          toAnal = map snd (interval_samples gazeWorld lo hi);
          time = map ts toAnal
      in if qHasLeft \<and> qHasRight then
           Inr (Binocular time (map (\<lambda>s. fst (lGaze2D s)) toAnal) (map (\<lambda>s. snd (lGaze2D s)) toAnal)
                               (map (\<lambda>s. fst (rGaze2D s)) toAnal) (map (\<lambda>s. snd (rGaze2D s)) toAnal))
         else if qHasRay then
           Inr (Average time (map (\<lambda>s. fst (gaze2DRay s)) toAnal) (map (\<lambda>s. snd (gaze2DRay s)) toAnal))
         else if qHasHomography then
           Inr (Average time (map (\<lambda>s. fst (gaze2DHomography s)) toAnal)
                             (map (\<lambda>s. snd (gaze2DHomography s)) toAnal))
         else Inl (RuntimeError ''No data available to process''))"

section \<open>Plane-ray intersection\<close>

text \<open>
  Modelled from the spec: the test "dot(normal, direction) approximately 0" of
  \<open>utils.intersect_plane_ray\<close> (\<open>utils.py\<close> is not among the sources). The spec names no
  tolerance; approximately zero is read as: of absolute value below a tolerance \<open>eps\<close>.
  A \<open>nan\<close> is not approximately zero (every comparison with \<open>nan\<close> is false).
\<close>

definition approx_zero :: "real \<Rightarrow> fl \<Rightarrow> bool" where
  "approx_zero eps a = (case a of None \<Rightarrow> False | Some u \<Rightarrow> \<bar>u\<bar> < eps)"

text \<open>
  Modelled from the spec: \<open>utils.intersect_plane_ray\<close> is called by \<open>c_gazeToBoard.py\<close>
  (lines 210 and 230, arguments plane normal, plane point, ray direction, ray origin) and
  defined in \<open>utils.py\<close>, which is not among the sources. The spec: "compute the scalar t
  such that origin + t*direction lies on the plane: t = dot(normal, point - origin) /
  dot(normal, direction); the intersection is origin + t*direction. Degenerate case (ray
  parallel to plane, dot(normal, direction) approximately 0) yields not-a-number, not an
  exception."
\<close>

definition intersect_plane_ray :: "real \<Rightarrow> vec3 \<Rightarrow> vec3 \<Rightarrow> vec3 \<Rightarrow> vec3 \<Rightarrow> vec3" where
  "intersect_plane_ray eps normal point direction origin =
     (let ndotu = dot normal direction
      in if approx_zero eps ndotu then (nan, nan, nan)
         else (let t = fdiv (dot normal (vsub point origin)) ndotu
               in vadd origin (smul t direction)))"

text \<open>
  Finite vectors as triples of reals: the dot product, the difference, and the point
  \<open>origin + t * direction\<close> of a ray.
\<close>

definition rdot :: "real \<times> real \<times> real \<Rightarrow> real \<times> real \<times> real \<Rightarrow> real" where
  "rdot p q = (case p of (a, b, c) \<Rightarrow> case q of (d, e, f) \<Rightarrow> a * d + b * e + c * f)"

definition rsub :: "real \<times> real \<times> real \<Rightarrow> real \<times> real \<times> real \<Rightarrow> real \<times> real \<times> real" where
  "rsub p q = (case p of (a, b, c) \<Rightarrow> case q of (d, e, f) \<Rightarrow> (a - d, b - e, c - f))"

definition ray_at :: "real \<times> real \<times> real \<Rightarrow> real \<Rightarrow> real \<times> real \<times> real \<Rightarrow> real \<times> real \<times> real" where
  "ray_at origin t direction =
     (case origin of (a, b, c) \<Rightarrow> case direction of (d, e, f) \<Rightarrow> (a + t * d, b + t * e, c + t * f))"

section \<open>Notions used to state the properties of the fixation matcher\<close>

text \<open>
  A fixation is eligible for the next target when it is not yet used and not shorter than
  the threshold; \<open>fix_dist\<close> is its distance to a target. \<open>match_inv\<close> relates \<open>used\<close> and
  \<open>selected\<close> after \<open>i\<close> targets when no fixation is too short: the targets from \<open>i\<close> on
  are at the sentinel, every assigned target holds a used fixation, every used fixation is
  held by a target, no two targets hold the same fixation, and a target was skipped only
  with all fixations used.
\<close>

definition eligible :: "fixation list \<Rightarrow> bool list \<Rightarrow> real \<Rightarrow> nat \<Rightarrow> bool" where
  "eligible fix used md k = (k < length fix \<and> \<not> used ! k \<and> \<not> dur (fix ! k) < md)"

definition fix_dist :: "fixation list \<Rightarrow> real \<times> real \<Rightarrow> nat \<Rightarrow> real" where
  "fix_dist fix c k = hypot (xpos (fix ! k) - fst c) (ypos (fix ! k) - snd c)"

definition match_inv :: "fixation list \<Rightarrow> nat \<Rightarrow> bool list \<Rightarrow> int list \<Rightarrow> bool" where
  "match_inv fix i used selected =
     (length used = length fix \<and>
      (\<forall>j. i \<le> j \<and> j < length selected \<longrightarrow> selected ! j = - 999) \<and>
      (\<forall>j<i. selected ! j = - 999 \<or> (\<exists>k<length fix. selected ! j = int k \<and> used ! k)) \<and>
      (\<forall>k<length fix. used ! k \<longrightarrow> (\<exists>j<i. selected ! j = int k)) \<and>
      (\<forall>j<i. \<forall>j'<i. selected ! j = selected ! j' \<and> selected ! j \<noteq> - 999 \<longrightarrow> j = j') \<and>
      (\<forall>j<i. selected ! j = - 999 \<longrightarrow> list_all (\<lambda>u. u) used))"

section \<open>Notions used to state the properties of c_gazeToBoard\<close>

text \<open>
  The two runs of the eye loop of one sample, and the parts of a written row that do not
  belong to the left eye, or to the right eye.
\<close>

definition eye_left ::
  "(vec3 \<Rightarrow> vec3 \<Rightarrow> vec3 \<Rightarrow> vec3 \<Rightarrow> vec3) \<Rightarrow> ('r \<Rightarrow> mat33) \<Rightarrow> mat33 \<Rightarrow> vec3 \<Rightarrow> 'r \<Rightarrow> vec3 \<Rightarrow>
   gaze \<Rightarrow> vec3 \<times> vec3 \<times> vec2 option" where
  "eye_left I R RCam cp rVec tVec g =
     eye_to_board I RCam cp (board_normal (R rVec)) (board_point (R rVec) tVec)
       (to_board (R rVec) tVec) (lGazeVec g) (gaze_lGazeOrigin g)"

definition eye_right ::
  "(vec3 \<Rightarrow> vec3 \<Rightarrow> vec3 \<Rightarrow> vec3 \<Rightarrow> vec3) \<Rightarrow> ('r \<Rightarrow> mat33) \<Rightarrow> mat33 \<Rightarrow> vec3 \<Rightarrow> 'r \<Rightarrow> vec3 \<Rightarrow>
   gaze \<Rightarrow> vec3 \<times> vec3 \<times> vec2 option" where
  "eye_right I R RCam cp rVec tVec g =
     eye_to_board I RCam cp (board_normal (R rVec)) (board_point (R rVec) tVec)
       (to_board (R rVec) tVec) (rGazeVec g) (gaze_rGazeOrigin g)"

definition not_left :: "gaze_row \<Rightarrow> vec3 \<times> vec3 \<times> vec3 \<times> vec2 \<times> vec3 \<times> vec3 \<times> vec2" where
  "not_left row = (planePoint row, planeNormal row, gazeCam3D_vidPos row, gazeBoard2D_vidPos row,
                   gazeOriRight row, gazeCam3DRight row, gazeBoard2DRight row)"

definition not_right :: "gaze_row \<Rightarrow> vec3 \<times> vec3 \<times> vec3 \<times> vec2 \<times> vec3 \<times> vec3 \<times> vec2" where
  "not_right row = (planePoint row, planeNormal row, gazeCam3D_vidPos row, gazeBoard2D_vidPos row,
                    gazeOriLeft row, gazeCam3DLeft row, gazeBoard2DLeft row)"

section \<open>Example inputs\<close>

text \<open>
  A board of \<open>n\<close> unit-square markers with ids \<open>0 .. n-1\<close>; a detection of the four
  markers 0 to 3 at their board positions; a detection of marker 0 and of three markers
  (7, 8, 9) that are not on a board of four; and stand-ins for the OpenCV operations: an
  undistortion that leaves the coordinates as they are and returns the four corners as
  four rows of one point (shape \<open>(4, 1, 2)\<close>), a homography solver that returns the pair
  of its point lists in place of the matrix and raises \<open>cv2.error\<close> unless the two lists
  have one length of at least 4, and a fixed pose with the number of detected board
  markers as the marker count.
\<close>

definition marker_at :: "int \<Rightarrow> quad" where
  "marker_at i = ((2 * of_int i, 1), (2 * of_int i + 1, 1), (2 * of_int i + 1, 0), (2 * of_int i, 0))"

definition board :: "int \<Rightarrow> (int \<rightharpoonup> quad)" where
  "board n = (\<lambda>i. if 0 \<le> i \<and> i < n then Some (marker_at i) else None)"

definition four_markers :: "(int \<times> quad) list" where
  "four_markers = [(0, marker_at 0), (1, marker_at 1), (2, marker_at 2), (3, marker_at 3)]"


definition one_point_rows :: "quad \<Rightarrow> point list list" where
  "one_point_rows q = map (\<lambda>p. [p]) (quad_points q)"

definition cv_example :: "(int \<rightharpoonup> quad) \<Rightarrow> (point list \<times> point list, real list) cv_ops" where
  "cv_example known = \<lparr>undistortPoints = one_point_rows,
     findHomography = (\<lambda>src dst. if length src = length dst \<and> 4 \<le> length src
                                  then Inr (src, dst) else Inl Cv2Error),
     estimatePoseBoard = (\<lambda>det. Inr (int (length (matched known det)), [0, 0, 0], [0, 0, 1])),
     targetInImage = (\<lambda>H. Inr (0, 0))\<rparr>"

text \<open>
  A board one unit in front of the camera and facing it, with the identity as rotation,
  a gaze sample whose two eyes look straight ahead from \<open>(0,0,0)\<close> and \<open>(2,0,0)\<close>, the
  same sample without left-eye data, and samples of \<open>gazeWorldPos.tsv\<close> with data for
  the left eye only, for nothing, and for everything.
\<close>

definition id33 :: mat33 where
  "id33 = ((Some 1, Some 0, Some 0), (Some 0, Some 1, Some 0), (Some 0, Some 0, Some 1))"

definition nan3 :: vec3 where
  "nan3 = (nan, nan, nan)"

definition pose_example :: "int \<rightharpoonup> unit \<times> vec3" where
  "pose_example = [0 \<mapsto> ((), (Some 0, Some 0, Some 1))]"

definition gaze_example :: gaze where
  "gaze_example = \<lparr>gaze_ts = 20, world3D = (Some 0, Some 0, Some 1),
     lGazeVec = (Some 0, Some 0, Some 1), gaze_lGazeOrigin = (Some 0, Some 0, Some 0),
     rGazeVec = (Some 0, Some 0, Some 1), gaze_rGazeOrigin = (Some 2, Some 0, Some 0)\<rparr>"

definition gaze_no_left :: gaze where
  "gaze_no_left = gaze_example\<lparr>lGazeVec := (nan, nan, nan), gaze_lGazeOrigin := (nan, nan, nan)\<rparr>"

definition left_only_sample :: gaze_world where
  "left_only_sample = \<lparr>ts = 0, lGazeOrigin = (Some 0, Some 0, Some 0), rGazeOrigin = nan3,
     lGaze3D = (Some 0, Some 0, Some 1), rGaze3D = nan3,
     lGaze2D = (Some 0, Some 0), rGaze2D = (nan, nan),
     gaze3DRay = nan3, gaze2DRay = (nan, nan),
     gaze3DHomography = nan3, gaze2DHomography = (nan, nan)\<rparr>"

definition no_data_sample :: gaze_world where
  "no_data_sample = \<lparr>ts = 0, lGazeOrigin = nan3, rGazeOrigin = nan3,
     lGaze3D = nan3, rGaze3D = nan3,
     lGaze2D = (nan, nan), rGaze2D = (nan, nan),
     gaze3DRay = nan3, gaze2DRay = (nan, nan),
     gaze3DHomography = nan3, gaze2DHomography = (nan, nan)\<rparr>"

definition both_eyes_sample :: gaze_world where
  "both_eyes_sample = \<lparr>ts = 40, lGazeOrigin = (Some 0, Some 0, Some 0), rGazeOrigin = (Some 2, Some 0, Some 0),
     lGaze3D = (Some 0, Some 0, Some 1), rGaze3D = (Some 2, Some 0, Some 1),
     lGaze2D = (Some 0, Some 0), rGaze2D = (Some 2, Some 0),
     gaze3DRay = (Some 1, Some 0, Some 1), gaze2DRay = (Some 1, Some 0),
     gaze3DHomography = (Some 1, Some 0, Some 1), gaze2DHomography = (Some 1, Some 0)\<rparr>"

text \<open>
  A stand-in for \<open>utils.angle_between\<close> (every angle is 3), and a pose table with one row,
  for frame 0: the pose above, and a homography \<open>H\<close> (its nine entries, row by row).
\<close>

definition angle_example :: "vec3 \<Rightarrow> vec3 \<Rightarrow> fl" where
  "angle_example v w = Some 3"

definition pose_table_example :: "real list \<Rightarrow> (unit, real list) board_pose_entry list" where
  "pose_table_example H =
     [\<lparr>bp_frame_idx = 0, bp_rVec = (), bp_tVec = (Some 0, Some 0, Some 1), bp_rest = H\<rparr>]"

section \<open>Properties of Idx2Timestamp\<close>

lemma py_getitem_last: "xs \<noteq> [] \<Longrightarrow> py_getitem xs (- 1) = Inr (last xs)"
  by (cases xs rule: rev_cases) (simp_all add: py_getitem_def)

text \<open>
  C10, the counterexample. With no stored timestamp (a \<open>frameTimestamps.tsv\<close> that has
  only its header), index 0 is not below the number of timestamps, the warning is written
  and \<open>self.timestamps[-1]\<close> raises IndexError: the lookup does raise for an index at or
  past the end.
\<close>

theorem Idx2Timestamp_get_empty_raises:
  "Idx2Timestamp_get [] 0 = ([(0, 0)], Inl IndexError)"
  by (simp add: Idx2Timestamp_get_def py_getitem_def)

text \<open>
  C10, as amended. For a frame index \<open>idx\<close> with \<open>0 \<le> idx\<close> below the number of
  stored timestamps the lookup returns the timestamp stored at that index and writes no
  warning. For an index at or past the number of stored timestamps, and at least one
  stored timestamp, it writes one warning and returns the last stored timestamp.
\<close>

theorem Idx2Timestamp_get_spec:
  "(0 \<le> idx \<and> idx < int (length timestamps) \<longrightarrow>
      Idx2Timestamp_get timestamps idx = ([], Inr (timestamps ! nat idx))) \<and>
   (int (length timestamps) \<le> idx \<and> timestamps \<noteq> [] \<longrightarrow>
      Idx2Timestamp_get timestamps idx = ([(idx, length timestamps)], Inr (last timestamps)))"
proof (intro conjI impI)
  assume "0 \<le> idx \<and> idx < int (length timestamps)"
  then show "Idx2Timestamp_get timestamps idx = ([], Inr (timestamps ! nat idx))"
    by (simp add: Idx2Timestamp_get_def py_getitem_def)
next
  assume "int (length timestamps) \<le> idx \<and> timestamps \<noteq> []"
  then show "Idx2Timestamp_get timestamps idx = ([(idx, length timestamps)], Inr (last timestamps))"
    by (simp add: Idx2Timestamp_get_def py_getitem_last)
qed

theorem Idx2Timestamp_get_spec_witness:
  "Idx2Timestamp_get [10, 43, 77] 1 = ([], Inr 43) \<and>
   Idx2Timestamp_get [10, 43, 77] 5 = ([(5, 3)], Inr 77)"
  using Idx2Timestamp_get_spec [of 1 "[10, 43, 77]"]
        Idx2Timestamp_get_spec [of 5 "[10, 43, 77]"]
  by simp

section \<open>Properties of the fixation matcher\<close>

text \<open>
  \<open>np.argmin\<close> returns an index of a smallest entry, the first one.
\<close>

lemma dist_less_irrefl: "\<not> dist_less a a"
  by (cases a) simp_all

lemma dist_less_trans: "dist_less a b \<Longrightarrow> dist_less b c \<Longrightarrow> dist_less a c"
  by (cases a; cases b; cases c) simp_all

lemma dist_less_le_trans: "dist_less a b \<Longrightarrow> \<not> dist_less c b \<Longrightarrow> dist_less a c"
  by (cases a; cases b; cases c) simp_all

lemma dist_le_less_trans: "\<not> dist_less b a \<Longrightarrow> dist_less b c \<Longrightarrow> dist_less a c"
  by (cases a; cases b; cases c) simp_all

lemma dist_le_trans: "\<not> dist_less b a \<Longrightarrow> \<not> dist_less c b \<Longrightarrow> \<not> dist_less c a"
  by (cases a; cases b; cases c) simp_all

lemma argmin_scan_spec:
  assumes "best < length pre"
    and "\<forall>k<length pre. \<not> dist_less (pre ! k) (pre ! best)"
    and "\<forall>k<best. dist_less (pre ! best) (pre ! k)"
  shows "argmin_scan ds (length pre) best (pre ! best) < length (pre @ ds) \<and>
     (\<forall>k<length (pre @ ds). \<not> dist_less ((pre @ ds) ! k) ((pre @ ds) ! argmin_scan ds (length pre) best (pre ! best))) \<and>
     (\<forall>k<argmin_scan ds (length pre) best (pre ! best).
         dist_less ((pre @ ds) ! argmin_scan ds (length pre) best (pre ! best)) ((pre @ ds) ! k))"
  using assms
proof (induction ds arbitrary: pre best)
  case Nil
  then show ?case by simp
next
  case (Cons d ds)
  let ?pre' = "pre @ [d]"
  have len: "length ?pre' = Suc (length pre)" by simp
  have app: "pre @ d # ds = ?pre' @ ds" by simp
  show ?case
  proof (cases "dist_less d (pre ! best)")
    case True
    have b: "length pre < length ?pre'" by simp
    have v: "?pre' ! length pre = d" by simp
    have le: "\<forall>k<length ?pre'. \<not> dist_less (?pre' ! k) (?pre' ! length pre)"
    proof (intro allI impI)
      fix k assume "k < length ?pre'"
      then have "k < length pre \<or> k = length pre" by auto
      then show "\<not> dist_less (?pre' ! k) (?pre' ! length pre)"
      proof
        assume k: "k < length pre"
        then have "\<not> dist_less (pre ! k) (pre ! best)" using Cons.prems(2) by simp
        with True have "\<not> dist_less (pre ! k) d"
          using dist_less_trans by blast
        then show ?thesis using k by (simp add: nth_append)
      next
        assume "k = length pre"
        then show ?thesis by (simp add: dist_less_irrefl)
      qed
    qed
    have first: "\<forall>k<length pre. dist_less (?pre' ! length pre) (?pre' ! k)"
    proof (intro allI impI)
      fix k assume k: "k < length pre"
      then have "\<not> dist_less (pre ! k) (pre ! best)" using Cons.prems(2) by simp
      with True have "dist_less d (pre ! k)"
        using dist_less_le_trans by blast
      then show "dist_less (?pre' ! length pre) (?pre' ! k)"
        using k by (simp add: nth_append)
    qed
    have eq: "argmin_scan (d # ds) (length pre) best (pre ! best) =
        argmin_scan ds (length ?pre') (length pre) (?pre' ! length pre)"
      using True by simp
    show ?thesis
      unfolding app eq by (rule Cons.IH [of "length pre" ?pre', OF b le first])
  next
    case False
    have b: "best < length ?pre'" using Cons.prems(1) by simp
    have v: "?pre' ! best = pre ! best" using Cons.prems(1) by (simp add: nth_append)
    have le: "\<forall>k<length ?pre'. \<not> dist_less (?pre' ! k) (?pre' ! best)"
    proof (intro allI impI)
      fix k assume "k < length ?pre'"
      then have "k < length pre \<or> k = length pre" by auto
      then show "\<not> dist_less (?pre' ! k) (?pre' ! best)"
      proof
        assume k: "k < length pre"
        then show ?thesis using Cons.prems(2) v by (simp add: nth_append)
      next
        assume "k = length pre"
        then show ?thesis using False v by simp
      qed
    qed
    have first: "\<forall>k<best. dist_less (?pre' ! best) (?pre' ! k)"
    proof (intro allI impI)
      fix k assume k: "k < best"
      then have "k < length pre" using Cons.prems(1) by simp
      then show "dist_less (?pre' ! best) (?pre' ! k)"
        using Cons.prems(3) k v by (simp add: nth_append)
    qed
    have eq: "argmin_scan (d # ds) (length pre) best (pre ! best) =
        argmin_scan ds (length ?pre') best (?pre' ! best)"
      using False v by simp
    show ?thesis
      unfolding app eq by (rule Cons.IH [of best ?pre', OF b le first])
  qed
qed

lemma np_argmin_spec:
  assumes "ds \<noteq> []"
  shows "\<exists>r. np_argmin ds = Inr r \<and> r < length ds \<and>
     (\<forall>k<length ds. \<not> dist_less (ds ! k) (ds ! r)) \<and>
     (\<forall>k<r. dist_less (ds ! r) (ds ! k))"
proof -
  from assms obtain d rest where ds: "ds = d # rest" by (cases ds) auto
  have "argmin_scan rest (length [d]) 0 ([d] ! 0) < length ([d] @ rest) \<and>
     (\<forall>k<length ([d] @ rest). \<not> dist_less (([d] @ rest) ! k) (([d] @ rest) ! argmin_scan rest (length [d]) 0 ([d] ! 0))) \<and>
     (\<forall>k<argmin_scan rest (length [d]) 0 ([d] ! 0).
         dist_less (([d] @ rest) ! argmin_scan rest (length [d]) 0 ([d] ! 0)) (([d] @ rest) ! k))"
    by (rule argmin_scan_spec) (simp_all add: dist_less_irrefl)
  then show ?thesis
    by (simp add: ds np_argmin_def)
qed

lemma target_dist_length: "length used = length fix \<Longrightarrow> length (target_dist fix used md c) = length fix"
  by (simp add: target_dist_def)

lemma target_dist_nth:
  assumes "length used = length fix" and "k < length fix"
  shows "target_dist fix used md c ! k =
     (if eligible fix used md k then Fin (fix_dist fix c k) else Inf)"
  using assms by (simp add: target_dist_def eligible_def fix_dist_def)

text \<open>
  When some fixation is eligible for a target, the fixation chosen is eligible, no eligible
  fixation is nearer to the target, and every eligible fixation before it is farther.
\<close>

lemma nearest_eligible:
  assumes len: "length used = length fix" and some: "eligible fix used md k0"
  shows "\<exists>r. np_argmin (target_dist fix used md c) = Inr r \<and> eligible fix used md r \<and>
     (\<forall>k. eligible fix used md k \<longrightarrow> fix_dist fix c r \<le> fix_dist fix c k) \<and>
     (\<forall>k<r. eligible fix used md k \<longrightarrow> fix_dist fix c r < fix_dist fix c k)"
proof -
  let ?ds = "target_dist fix used md c"
  have k0: "k0 < length fix" using some by (simp add: eligible_def)
  have l: "length ?ds = length fix" using len by (rule target_dist_length)
  with k0 have "?ds \<noteq> []" by auto
  then obtain r where r: "np_argmin ?ds = Inr r" and rl: "r < length ?ds"
    and le: "\<forall>k<length ?ds. \<not> dist_less (?ds ! k) (?ds ! r)"
    and first: "\<forall>k<r. dist_less (?ds ! r) (?ds ! k)"
    using np_argmin_spec by blast
  have rf: "r < length fix" using rl l by simp
  have "\<not> dist_less (?ds ! k0) (?ds ! r)" using le k0 l by simp
  then have er: "eligible fix used md r"
    using some by (simp add: target_dist_nth [OF len k0] target_dist_nth [OF len rf] split: if_splits)
  have min: "\<forall>k. eligible fix used md k \<longrightarrow> fix_dist fix c r \<le> fix_dist fix c k"
  proof (intro allI impI)
    fix k assume ek: "eligible fix used md k"
    then have kf: "k < length fix" by (simp add: eligible_def)
    then have "\<not> dist_less (?ds ! k) (?ds ! r)" using le l by simp
    then show "fix_dist fix c r \<le> fix_dist fix c k"
      using ek er by (simp add: target_dist_nth [OF len kf] target_dist_nth [OF len rf])
  qed
  have fst: "\<forall>k<r. eligible fix used md k \<longrightarrow> fix_dist fix c r < fix_dist fix c k"
  proof (intro allI impI)
    fix k assume kr: "k < r" and ek: "eligible fix used md k"
    then have kf: "k < length fix" by (simp add: eligible_def)
    from kr have "dist_less (?ds ! r) (?ds ! k)" using first by simp
    then show "fix_dist fix c r < fix_dist fix c k"
      using ek er by (simp add: target_dist_nth [OF len kf] target_dist_nth [OF len rf])
  qed
  show ?thesis using r er min fst by blast
qed

text \<open>
  The loop never raises (\<open>np.argmin\<close> is not reached with an empty array); \<open>selected\<close>
  has one entry per target.
\<close>

lemma select_loop_total:
  assumes "length used = length fix"
  shows "\<exists>used' selected'. select_loop fix tgts i used selected = Inr (used', selected') \<and>
     length used' = length fix \<and> length selected' = length selected"
  using assms
proof (induction tgts arbitrary: i used selected)
  case Nil
  then show ?case by simp
next
  case (Cons tc tgts)
  obtain t c where tc: "tc = (t, c)" by (cases tc) auto
  show ?case
  proof (cases "list_all (\<lambda>u. u) used")
    case True
    then show ?thesis
      using Cons.IH [of used "Suc i" selected] Cons.prems by (simp add: tc)
  next
    case False
    then have "used \<noteq> []" by auto
    then have "0 < length fix" using Cons.prems by auto
    then have "target_dist fix used minDur c \<noteq> []"
      using target_dist_length [OF Cons.prems, of minDur c] by auto
    then obtain r where r: "np_argmin (target_dist fix used minDur c) = Inr r"
      using np_argmin_spec by blast
    have "length (used[r := True]) = length fix" using Cons.prems by simp
    from Cons.IH [OF this, of "Suc i" "selected[i := int r]"]
    show ?thesis
      using False r by (simp add: tc)
  qed
qed

lemma select_fixations_total:
  "\<exists>selected. select_fixations fix tgts = Inr selected \<and> length selected = length tgts"
proof -
  have "length (replicate (length fix) False) = length fix" by simp
  from select_loop_total [OF this, of tgts 0 "replicate (length tgts) (- 999)"]
  show ?thesis
    by (auto simp: select_fixations_def)
qed

text \<open>
  The example of the spec: three fixations of 200, 100 and 300 ms at distances 5, 1 and 1
  from the target; the target gets the fixation of 300 ms (index 2), not the nearer one
  of 100 ms.
\<close>

lemma spec_example:
  "select_fixations
     [\<lparr>xpos = 5, ypos = 0, dur = 200, startT = 0, endT = 200\<rparr>,
      \<lparr>xpos = 1, ypos = 0, dur = 100, startT = 300, endT = 400\<rparr>,
      \<lparr>xpos = 0, ypos = 1, dur = 300, startT = 500, endT = 800\<rparr>]
     [(1, 0, 0)] = Inr [2]"
  by (simp add: select_fixations_def np_argmin_def target_dist_def minDur_def hypot_def)

text \<open>
  When no fixation is shorter than the threshold, the assignment is injective, every
  assigned entry is the index of a fixation, and a target stays unassigned only when every
  fixation is assigned to some target.
\<close>

lemma match_inv_skip:
  assumes inv: "match_inv fix i used selected" and i: "i < length selected"
    and all: "list_all (\<lambda>u. u) used"
  shows "match_inv fix (Suc i) used selected"
proof -
  have si: "selected ! i = - 999" using inv i by (simp add: match_inv_def)
  show ?thesis
    unfolding match_inv_def
  proof (intro conjI allI impI)
    show "length used = length fix" using inv by (simp add: match_inv_def)
  next
    fix j assume "Suc i \<le> j \<and> j < length selected"
    then show "selected ! j = - 999" using inv by (simp add: match_inv_def)
  next
    fix j assume "j < Suc i"
    then have "j < i \<or> j = i" by auto
    then show "selected ! j = - 999 \<or> (\<exists>k<length fix. selected ! j = int k \<and> used ! k)"
      using inv si by (auto simp: match_inv_def)
  next
    fix k assume "k < length fix" and "used ! k"
    then have "\<exists>j<i. selected ! j = int k" using inv by (simp add: match_inv_def)
    then show "\<exists>j<Suc i. selected ! j = int k" using less_SucI by blast
  next
    fix j j' assume j: "j < Suc i" and j': "j' < Suc i"
      and eq: "selected ! j = selected ! j' \<and> selected ! j \<noteq> - 999"
    from j eq si have "j < i" by (cases "j = i") auto
    moreover from j' eq si have "j' < i" by (cases "j' = i") auto
    ultimately show "j = j'" using inv eq by (simp add: match_inv_def)
  next
    fix j assume "j < Suc i" and "selected ! j = - 999"
    show "list_all (\<lambda>u. u) used" by (rule all)
  qed
qed

lemma match_inv_assign:
  assumes inv: "match_inv fix i used selected" and i: "i < length selected"
    and notall: "\<not> list_all (\<lambda>u. u) used"
    and r: "r < length fix" and free: "\<not> used ! r"
  shows "match_inv fix (Suc i) (used[r := True]) (selected[i := int r])"
proof -
  have len: "length used = length fix" using inv by (simp add: match_inv_def)
  have old: "\<forall>j<i. selected ! j \<noteq> - 999"
    using inv notall by (auto simp: match_inv_def)
  have claimed: "\<forall>j<i. \<exists>k<length fix. selected ! j = int k \<and> used ! k"
    using inv old by (auto simp: match_inv_def)
  have notr: "\<forall>j<i. selected ! j \<noteq> int r"
  proof (intro allI impI)
    fix j assume "j < i"
    then obtain k where "k < length fix" and "selected ! j = int k" and "used ! k"
      using claimed by blast
    then show "selected ! j \<noteq> int r" using free by auto
  qed
  show ?thesis
    unfolding match_inv_def
  proof (intro conjI allI impI)
    show "length (used[r := True]) = length fix" using len by simp
  next
    fix j assume "Suc i \<le> j \<and> j < length (selected[i := int r])"
    then show "selected[i := int r] ! j = - 999" using inv by (simp add: match_inv_def)
  next
    fix j assume "j < Suc i"
    then have "j < i \<or> j = i" by auto
    then show "selected[i := int r] ! j = - 999 \<or>
        (\<exists>k<length fix. selected[i := int r] ! j = int k \<and> used[r := True] ! k)"
    proof
      assume ji: "j < i"
      then obtain k where k: "k < length fix" and sk: "selected ! j = int k" and uk: "used ! k"
        using claimed by blast
      have "used[r := True] ! k" using k uk len by (cases "k = r") simp_all
      moreover have "selected[i := int r] ! j = int k" using ji sk by simp
      ultimately show ?thesis using k by blast
    next
      assume "j = i"
      then show ?thesis using i r len by auto
    qed
  next
    fix k assume k: "k < length fix" and u: "used[r := True] ! k"
    show "\<exists>j<Suc i. selected[i := int r] ! j = int k"
    proof (cases "k = r")
      case True
      then show ?thesis using i by auto
    next
      case False
      then have "used ! k" using u k len by (simp add: nth_list_update)
      then obtain j where "j < i" and "selected ! j = int k"
        using inv k by (auto simp: match_inv_def)
      then show ?thesis by (auto simp: nth_list_update intro!: exI [of _ j])
    qed
  next
    fix j j' assume j: "j < Suc i" and j': "j' < Suc i"
      and eq: "selected[i := int r] ! j = selected[i := int r] ! j' \<and> selected[i := int r] ! j \<noteq> - 999"
    show "j = j'"
    proof (cases "j = i")
      case True
      show ?thesis
      proof (cases "j' = i")
        case True
        with \<open>j = i\<close> show ?thesis by simp
      next
        case False
        then have "j' < i" using j' by simp
        then have "selected ! j' \<noteq> int r" using notr by simp
        then show ?thesis using eq True False i by (simp add: nth_list_update)
      qed
    next
      case False
      then have ji: "j < i" using j by simp
      show ?thesis
      proof (cases "j' = i")
        case True
        have "selected ! j \<noteq> int r" using notr ji by simp
        then show ?thesis using eq True False i by (simp add: nth_list_update)
      next
        case False
        then have "j' < i" using j' by simp
        then show ?thesis
          using inv ji eq \<open>j \<noteq> i\<close> False by (simp add: match_inv_def nth_list_update)
      qed
    qed
  next
    fix j assume j: "j < Suc i" and e: "selected[i := int r] ! j = - 999"
    have "j \<noteq> i" using e i by auto
    then have "j < i" using j by simp
    then have "selected ! j \<noteq> - 999" using old by simp
    then have False using e \<open>j \<noteq> i\<close> by (simp add: nth_list_update)
    then show "list_all (\<lambda>u. u) (used[r := True])" ..
  qed
qed

lemma exists_free:
  assumes "\<not> list_all (\<lambda>u. u) used"
  shows "\<exists>k<length used. \<not> used ! k"
  using assms by (auto simp: list_all_length)

lemma select_loop_inv:
  assumes long: "\<forall>f\<in>set fix. \<not> dur f < minDur"
    and inv: "match_inv fix i used selected"
    and len: "length selected = i + length tgts"
    and res: "select_loop fix tgts i used selected = Inr (used', selected')"
  shows "match_inv fix (i + length tgts) used' selected' \<and> length selected' = length selected"
  using inv len res
proof (induction tgts arbitrary: i used selected)
  case Nil
  then show ?case by simp
next
  case (Cons tc tgts)
  obtain t c where tc: "tc = (t, c)" by (cases tc) auto
  have i: "i < length selected" using Cons.prems(2) by simp
  have ulen: "length used = length fix" using Cons.prems(1) by (simp add: match_inv_def)
  show ?case
  proof (cases "list_all (\<lambda>u. u) used")
    case True
    have inv': "match_inv fix (Suc i) used selected"
      using Cons.prems(1) i True by (rule match_inv_skip)
    have "select_loop fix tgts (Suc i) used selected = Inr (used', selected')"
      using Cons.prems(3) True by (simp add: tc)
    from Cons.IH [OF inv' _ this] Cons.prems(2)
    show ?thesis by simp
  next
    case False
    then obtain k0 where k0: "k0 < length used" and free0: "\<not> used ! k0"
      using exists_free by blast
    have "fix ! k0 \<in> set fix" using k0 ulen by simp
    then have "\<not> dur (fix ! k0) < minDur" using long by blast
    then have "eligible fix used minDur k0"
      using k0 free0 ulen by (simp add: eligible_def)
    then obtain r where r: "np_argmin (target_dist fix used minDur c) = Inr r"
      and er: "eligible fix used minDur r"
      using nearest_eligible [OF ulen, of minDur k0 c] by blast
    have rl: "r < length fix" and rf: "\<not> used ! r" using er by (simp_all add: eligible_def)
    have inv': "match_inv fix (Suc i) (used[r := True]) (selected[i := int r])"
      using Cons.prems(1) i False rl rf by (rule match_inv_assign)
    have "select_loop fix tgts (Suc i) (used[r := True]) (selected[i := int r]) = Inr (used', selected')"
      using Cons.prems(3) False r by (simp add: tc)
    from Cons.IH [OF inv' _ this] Cons.prems(2)
    show ?thesis by simp
  qed
qed

lemma match_inv_init: "match_inv fix 0 (replicate (length fix) False) (replicate n (- 999))"
  by (simp add: match_inv_def)

lemma select_fixations_injective:
  assumes long: "\<forall>f\<in>set fix. \<not> dur f < minDur"
    and res: "select_fixations fix tgts = Inr selected"
  shows "length selected = length tgts \<and>
     (\<forall>j<length tgts. \<forall>j'<length tgts.
         selected ! j = selected ! j' \<and> selected ! j \<noteq> - 999 \<longrightarrow> j = j') \<and>
     (\<forall>j<length tgts. selected ! j \<noteq> - 999 \<longrightarrow> 0 \<le> selected ! j \<and> selected ! j < int (length fix)) \<and>
     (\<forall>j<length tgts. selected ! j = - 999 \<longrightarrow>
         (\<forall>k<length fix. \<exists>j'<length tgts. selected ! j' = int k))"
proof -
  let ?u0 = "replicate (length fix) False" and ?s0 = "replicate (length tgts) (- 999 :: int)"
  from res obtain used' where loop: "select_loop fix tgts 0 ?u0 ?s0 = Inr (used', selected)"
    by (auto simp: select_fixations_def split: sum.splits)
  have "match_inv fix (0 + length tgts) used' selected \<and> length selected = length ?s0"
    using long match_inv_init _ loop by (rule select_loop_inv) simp
  then have inv: "match_inv fix (length tgts) used' selected" and len: "length selected = length tgts"
    by simp_all
  have ulen: "length used' = length fix" using inv by (simp add: match_inv_def)
  show ?thesis
  proof (intro conjI allI impI)
    show "length selected = length tgts" by (rule len)
  next
    fix j j' assume "j < length tgts" and "j' < length tgts"
      and "selected ! j = selected ! j' \<and> selected ! j \<noteq> - 999"
    then show "j = j'" using inv by (simp add: match_inv_def)
  next
    fix j assume "j < length tgts" and "selected ! j \<noteq> - 999"
    then obtain k where "k < length fix" and "selected ! j = int k"
      using inv by (auto simp: match_inv_def)
    then show "0 \<le> selected ! j" and "selected ! j < int (length fix)" by simp_all
  next
    fix j k assume j: "j < length tgts" and e: "selected ! j = - 999" and k: "k < length fix"
    from inv j e have "list_all (\<lambda>u. u) used'" by (simp add: match_inv_def)
    then have "used' ! k" using k ulen by (simp add: list_all_length)
    then show "\<exists>j'<length tgts. selected ! j' = int k"
      using inv k by (simp add: match_inv_def)
  qed
qed

text \<open>
  C1, the code at a failing input. One fixation of 100 ms, below the 150 ms threshold,
  and one target: no fixation is eligible and every distance is \<open>math.inf\<close>, yet
  \<open>np.all(used)\<close> is False, \<open>np.argmin\<close> of the all-infinite array is 0, and the target is
  assigned fixation 0 instead of being left at the sentinel -999.
\<close>

theorem select_fixations_takes_short_fixation:
  "target_dist [\<lparr>xpos = 0, ypos = 0, dur = 100, startT = 0, endT = 100\<rparr>] [False] minDur (0, 0) = [Inf] \<and>
   select_fixations [\<lparr>xpos = 0, ypos = 0, dur = 100, startT = 0, endT = 100\<rparr>] [(1, 0, 0)] = Inr [0]"
  by (simp add: select_fixations_def np_argmin_def target_dist_def minDur_def)

text \<open>
  C4, the code at a failing input. Two fixations, the first of 200 ms at the first target,
  the second of 100 ms (too short) at the second target, and two targets. One fixation is
  eligible, so one target should stay unassigned; the second target finds only infinite
  distances, \<open>np.argmin\<close> returns 0, and both targets are assigned fixation 0.
\<close>

theorem select_fixations_shares_fixation:
  "select_fixations
     [\<lparr>xpos = 0, ypos = 0, dur = 200, startT = 0, endT = 200\<rparr>,
      \<lparr>xpos = 10, ypos = 0, dur = 100, startT = 300, endT = 400\<rparr>]
     [(1, 0, 0), (2, 10, 0)] = Inr [0, 0]"
  by (simp add: select_fixations_def np_argmin_def target_dist_def minDur_def)

section \<open>Properties of b_detectMarkers\<close>

lemma len_qp: "length (quad_points q) = 4"
  by (cases q) (simp add: quad_points_def)

lemma matched_map: "matched known (map (\<lambda>(i, c). (i, f c)) det) = map (\<lambda>(i, c). (i, f c)) (matched known det)"
  by (induction det) (auto simp: matched_def)






text \<open>The outcome of a frame with at least 4 detected markers, stage by stage.\<close>

lemma pf_err_corners:
  assumes "4 \<le> length det"
    and "matching_corners known (map (\<lambda>(i, c). (i, undistortPoints cv c)) det) = Inl err"
  shows "process_frame cv known idx (Some det) = Inl err"
  using assms by (simp add: process_frame_def estimateTransform_def)


lemma pf_err_homography:
  assumes "4 \<le> length det"
    and "matching_corners known (map (\<lambda>(i, c). (i, undistortPoints cv c)) det) = Inr (src, dst)"
    and "4 \<le> length src"
    and "findHomography cv src dst = Inl err"
  shows "process_frame cv known idx (Some det) = Inl err"
  using assms by (simp add: process_frame_def estimateTransform_def)

lemma pf_solved:
  assumes "4 \<le> length det"
    and "matching_corners known (map (\<lambda>(i, c). (i, undistortPoints cv c)) det) = Inr (src, dst)"
    and "4 \<le> length src"
    and "findHomography cv src dst = Inr H"
  shows "process_frame cv known idx (Some det) =
     (case estimatePoseBoard cv det of
        Inl err \<Rightarrow> Inl err
      | Inr (n, Rvec, Tvec) \<Rightarrow>
          (case targetInImage cv H of
             Inl err \<Rightarrow> Inl err
           | Inr target \<Rightarrow>
               Inr (Some \<lparr>frame_idx = idx, transformation = H, poseNMarker = n,
                          poseRvec = Rvec, poseTvec = Tvec, centerTarget = target\<rparr>)))"
  using assms by (simp add: process_frame_def estimateTransform_def)

text \<open>
  The number of image points per matched marker follows the shape of what
  \<open>cv2.undistortPoints\<close> returns. When the first row of every returned array holds four
  points (a returned shape \<open>(1, 4, 2)\<close>), four image points are collected per matched
  marker; when it holds one point (a returned shape \<open>(4, 1, 2)\<close>), one image point is
  collected per matched marker, against four board points.
\<close>

lemma len_image_points_rows_of_four:
  assumes "\<And>q. \<exists>r rs. undistortPoints cv q = r # rs \<and> length r = 4"
  shows "length (image_points cv known det) = 4 * length (matched known det)"
  unfolding image_points_def
proof (induction "matched known det" arbitrary: det)
  case Nil
  then show ?case by simp
next
  case (Cons a ms)
  obtain i c where a: "a = (i, c)" by (cases a)
  obtain r rs where "undistortPoints cv c = r # rs" and "length r = 4"
    using assms by blast
  then have "length (first_row (undistortPoints cv c)) = 4"
    by (simp add: first_row_def)
  moreover have "length (concat (map (\<lambda>(i, c). first_row (undistortPoints cv c)) ms)) = 4 * length ms"
  proof (induction ms)
    case Nil
    then show ?case by simp
  next
    case (Cons b ms)
    obtain j d where b: "b = (j, d)" by (cases b)
    obtain r' rs' where "undistortPoints cv d = r' # rs'" and "length r' = 4"
      using assms by blast
    then show ?case
      using Cons by (simp add: b first_row_def)
  qed
  ultimately show ?case
    using Cons(2) [symmetric] by (simp add: a)
qed









lemma cv_example_mismatch:
  "length src \<noteq> length dst \<Longrightarrow> findHomography (cv_example known) src dst = Inl Cv2Error"
  by (simp add: cv_example_def)


lemma four_markers_corners:
  "matching_corners (board 4) (map (\<lambda>(i, c). (i, undistortPoints (cv_example (board 4)) c)) four_markers) =
     Inr ([(0, 1), (2, 1), (4, 1), (6, 1)],
          quad_points (marker_at 0) @ quad_points (marker_at 1) @ quad_points (marker_at 2) @
          quad_points (marker_at 3))"
  by (simp add: four_markers_def board_def cv_example_def one_point_rows_def marker_at_def quad_points_def)

text \<open>
  C3, the code at a failing input. The board has the markers 0 to 3 and all four are
  detected, each at its board position; \<open>cv2.undistortPoints\<close> returns the four corners of
  a marker as four rows of one point. \<open>estimateTransform\<close> collects the first row of each
  marker only, that is 4 image points (the top left corners), against the 16 known corners
  on the board side, and \<open>cv2.findHomography\<close> raises on the two lists: no homography is
  solved from every corner of every matched marker, and the run ends with \<open>cv2.error\<close>.
\<close>

theorem four_known_markers_raise:
  "matching_corners (board 4) (map (\<lambda>(i, c). (i, undistortPoints (cv_example (board 4)) c)) four_markers) =
     Inr ([(0, 1), (2, 1), (4, 1), (6, 1)],
          quad_points (marker_at 0) @ quad_points (marker_at 1) @ quad_points (marker_at 2) @
          quad_points (marker_at 3)) \<and>
   length (quad_points (marker_at 0) @ quad_points (marker_at 1) @ quad_points (marker_at 2) @
           quad_points (marker_at 3)) = 16 \<and>
   process_frame (cv_example (board 4)) (board 4) 7 (Some four_markers) = Inl Cv2Error"
proof -
  have l: "4 \<le> length four_markers" by (simp add: four_markers_def)
  have "findHomography (cv_example (board 4)) [(0, 1), (2, 1), (4, 1), (6, 1)]
          (quad_points (marker_at 0) @ quad_points (marker_at 1) @ quad_points (marker_at 2) @
           quad_points (marker_at 3)) = Inl Cv2Error"
    by (simp add: cv_example_def len_qp)
  then have "process_frame (cv_example (board 4)) (board 4) 7 (Some four_markers) = Inl Cv2Error"
    using pf_err_homography [OF l four_markers_corners] by simp
  then show ?thesis
    by (simp add: four_markers_corners len_qp)
qed




section \<open>Properties of the floating-point operations\<close>

lemma lift2_nan [simp]: "lift2 f None b = None" "lift2 f a None = None" "lift2 f (Some u) (Some v) = Some (f u v)"
  by (simp_all add: lift2_def split: option.splits)

lemma fl_nan [simp]:
  "fadd None b = None" "fadd a None = None"
  "fsub None b = None" "fsub a None = None"
  "fmul None b = None" "fmul a None = None"
  "fdiv None b = None" "fdiv a None = None"
  by (simp_all add: fadd_def fsub_def fmul_def fdiv_def)

lemma fl_fin [simp]:
  "fadd (Some u) (Some v) = Some (u + v)"
  "fsub (Some u) (Some v) = Some (u - v)"
  "fmul (Some u) (Some v) = Some (u * v)"
  "v \<noteq> 0 \<Longrightarrow> fdiv (Some u) (Some v) = Some (u / v)"
  "fdiv a (Some 0) = None"
  "fneg (Some u) = Some (- u)"
  by (simp_all add: fadd_def fsub_def fmul_def fdiv_def fneg_def lift1_def)

lemma lift1_fin [simp]: "lift1 f (Some u) = Some (f u)" "lift1 f None = None"
  by (simp_all add: lift1_def)

lemma dot_nan: "dot n (None, None, None) = None"
  by (cases n) (simp add: dot_def)

lemma hom_apply_nan: "hom_apply R t (None, None, None) = (None, None, None)"
  by (cases R) (simp add: hom_apply_def mat_vec_def dot_nan vadd_def split: prod.splits)

lemma smul_nan: "smul None d = (None, None, None)"
  by (cases d) (simp add: smul_def)

lemma vadd_nan: "vadd p (None, None, None) = (None, None, None)"
  by (cases p) (simp add: vadd_def)

lemma ipr_nan_dir: "intersect_plane_ray eps n p (None, None, None) ori = (None, None, None)"
  by (simp add: intersect_plane_ray_def dot_nan approx_zero_def smul_nan vadd_nan)

section \<open>Properties of c_gazeToBoard and of the classifier input\<close>

lemma gtb_none: "boardPose idx = None \<Longrightarrow> gaze_to_board I R RCam cp boardPose idx fts g = (None, Map.empty)"
  by (simp add: gaze_to_board_def)

lemma eye_board2D: "(snd (snd (eye_to_board I RCam cp bn bp tb gVec gOri)) \<noteq> None) =
   (\<not> isnan (fst (fst (snd (eye_to_board I RCam cp bn bp tb gVec gOri)))))"
  by (simp add: eye_to_board_def Let_def split: prod.splits)

lemma gtb_some:
  assumes "boardPose idx = Some (rVec, tVec)"
  shows "\<exists>row off. gaze_to_board I R RCam cp boardPose idx fts g = (Some row, off) \<and>
     gazeOriLeft row = fst (eye_left I R RCam cp rVec tVec g) \<and>
     gazeCam3DLeft row = fst (snd (eye_left I R RCam cp rVec tVec g)) \<and>
     gazeBoard2DLeft row = written2D (snd (snd (eye_left I R RCam cp rVec tVec g))) \<and>
     gazeOriRight row = fst (eye_right I R RCam cp rVec tVec g) \<and>
     gazeCam3DRight row = fst (snd (eye_right I R RCam cp rVec tVec g)) \<and>
     gazeBoard2DRight row = written2D (snd (snd (eye_right I R RCam cp rVec tVec g))) \<and>
     off ''left'' = snd (snd (eye_left I R RCam cp rVec tVec g)) \<and>
     off ''right'' = snd (snd (eye_right I R RCam cp rVec tVec g)) \<and>
     off ''average'' =
       (case (snd (snd (eye_left I R RCam cp rVec tVec g)), snd (snd (eye_right I R RCam cp rVec tVec g))) of
          (Some (lx, ly), Some (rx, ry)) \<Rightarrow> Some (fdiv (fadd lx rx) (Some 2), fdiv (fadd ly ry) (Some 2))
        | _ \<Rightarrow> None)"
  using assms
  by (simp add: gaze_to_board_def Let_def eye_left_def eye_right_def split: option.splits prod.splits)

lemma written_nan: "(snd (snd (eye_to_board I RCam cp bn bp tb gVec gOri)) = None) =
   isnan (fst (fst (snd (eye_to_board I RCam cp bn bp tb gVec gOri))))"
  using eye_board2D [of I RCam cp bn bp tb gVec gOri] by blast

lemma average_cases:
  assumes "boardPose idx = Some (rVec, tVec)"
  shows "\<exists>row off. gaze_to_board I R RCam cp boardPose idx fts g = (Some row, off) \<and>
         (off ''left'' \<noteq> None) = (\<not> isnan (fst (gazeCam3DLeft row))) \<and>
         (off ''right'' \<noteq> None) = (\<not> isnan (fst (gazeCam3DRight row))) \<and>
         (off ''average'' \<noteq> None) =
            (\<not> isnan (fst (gazeCam3DLeft row)) \<and> \<not> isnan (fst (gazeCam3DRight row))) \<and>
         (\<forall>lx ly rx ry. off ''left'' = Some (lx, ly) \<and> off ''right'' = Some (rx, ry) \<longrightarrow>
             off ''average'' = Some (fdiv (fadd lx rx) (Some 2), fdiv (fadd ly ry) (Some 2)))"
proof -
  obtain row off where g: "gaze_to_board I R RCam cp boardPose idx fts g = (Some row, off)"
    and l3: "gazeCam3DLeft row = fst (snd (eye_left I R RCam cp rVec tVec g))"
    and r3: "gazeCam3DRight row = fst (snd (eye_right I R RCam cp rVec tVec g))"
    and ol: "off ''left'' = snd (snd (eye_left I R RCam cp rVec tVec g))"
    and or: "off ''right'' = snd (snd (eye_right I R RCam cp rVec tVec g))"
    and oa: "off ''average'' =
       (case (snd (snd (eye_left I R RCam cp rVec tVec g)), snd (snd (eye_right I R RCam cp rVec tVec g))) of
          (Some (lx, ly), Some (rx, ry)) \<Rightarrow> Some (fdiv (fadd lx rx) (Some 2), fdiv (fadd ly ry) (Some 2))
        | _ \<Rightarrow> None)"
    using gtb_some [where boardPose = boardPose and idx = idx and rVec = rVec and tVec = tVec
        and I = I and R = R and RCam = RCam and cp = cp and fts = fts and g = g] assms
    by blast
  have lp: "(off ''left'' \<noteq> None) = (\<not> isnan (fst (gazeCam3DLeft row)))"
    unfolding ol l3 eye_left_def by (rule eye_board2D)
  have rp: "(off ''right'' \<noteq> None) = (\<not> isnan (fst (gazeCam3DRight row)))"
    unfolding or r3 eye_right_def by (rule eye_board2D)
  have ap: "(off ''average'' \<noteq> None) = (off ''left'' \<noteq> None \<and> off ''right'' \<noteq> None)"
    unfolding oa ol or by (simp split: option.splits prod.splits)
  have av: "\<forall>lx ly rx ry. off ''left'' = Some (lx, ly) \<and> off ''right'' = Some (rx, ry) \<longrightarrow>
             off ''average'' = Some (fdiv (fadd lx rx) (Some 2), fdiv (fadd ly ry) (Some 2))"
    unfolding oa ol or by simp
  show ?thesis
    using g lp rp ap av by simp
qed

lemma nan_cases:
  assumes "boardPose idx = Some (rVec, tVec)"
  shows "\<exists>row off. gaze_to_board I R RCam cp boardPose idx fts g = (Some row, off) \<and>
         (isnan (fst (gazeCam3DLeft row)) \<longrightarrow> gazeBoard2DLeft row = (nan, nan) \<and> off ''left'' = None) \<and>
         (isnan (fst (gazeCam3DRight row)) \<longrightarrow> gazeBoard2DRight row = (nan, nan) \<and> off ''right'' = None)"
proof -
  obtain row off where g: "gaze_to_board I R RCam cp boardPose idx fts g = (Some row, off)"
    and l3: "gazeCam3DLeft row = fst (snd (eye_left I R RCam cp rVec tVec g))"
    and l2: "gazeBoard2DLeft row = written2D (snd (snd (eye_left I R RCam cp rVec tVec g)))"
    and r3: "gazeCam3DRight row = fst (snd (eye_right I R RCam cp rVec tVec g))"
    and r2: "gazeBoard2DRight row = written2D (snd (snd (eye_right I R RCam cp rVec tVec g)))"
    and ol: "off ''left'' = snd (snd (eye_left I R RCam cp rVec tVec g))"
    and or: "off ''right'' = snd (snd (eye_right I R RCam cp rVec tVec g))"
    using gtb_some [where boardPose = boardPose and idx = idx and rVec = rVec and tVec = tVec
        and I = I and R = R and RCam = RCam and cp = cp and fts = fts and g = g] assms
    by blast
  have lp: "isnan (fst (gazeCam3DLeft row)) \<longrightarrow> gazeBoard2DLeft row = (nan, nan) \<and> off ''left'' = None"
    unfolding ol l3 l2 eye_left_def by (simp add: written_nan [symmetric] written2D_def)
  have rp: "isnan (fst (gazeCam3DRight row)) \<longrightarrow> gazeBoard2DRight row = (nan, nan) \<and> off ''right'' = None"
    unfolding or r3 r2 eye_right_def by (simp add: written_nan [symmetric] written2D_def)
  show ?thesis using g lp rp by simp
qed

lemma gtb_not_left:
  "map_option not_left (fst (gaze_to_board I R RCam cp boardPose idx fts (g\<lparr>lGazeVec := v, gaze_lGazeOrigin := o1\<rparr>))) =
   map_option not_left (fst (gaze_to_board I R RCam cp boardPose idx fts g))"
  by (simp add: gaze_to_board_def Let_def not_left_def split: option.splits prod.splits)

lemma gtb_not_right:
  "map_option not_right (fst (gaze_to_board I R RCam cp boardPose idx fts (g\<lparr>rGazeVec := v, gaze_rGazeOrigin := o1\<rparr>))) =
   map_option not_right (fst (gaze_to_board I R RCam cp boardPose idx fts g))"
  by (simp add: gaze_to_board_def Let_def not_right_def split: option.splits prod.splits)

lemma missing_left:
  assumes I: "\<forall>n p q. isnan (fst (I n p (nan, nan, nan) q))"
    and g: "lGazeVec g = (nan, nan, nan)" and p: "boardPose idx \<noteq> None"
  shows "map_option gazeBoard2DLeft (fst (gaze_to_board I R RCam cp boardPose idx fts g)) = Some (nan, nan)"
proof -
  from p obtain rVec tVec where q: "boardPose idx = Some (rVec, tVec)" by auto
  have "isnan (fst (I (board_normal (R rVec)) (board_point (R rVec) tVec) (nan, nan, nan)
                     (hom_apply RCam cp (gaze_lGazeOrigin g))))"
    using I by blast
  then have inst: "isnan (fst (I (board_normal (R rVec)) (board_point (R rVec) tVec) (None, None, None)
                     (hom_apply RCam cp (gaze_lGazeOrigin g))))"
    by (simp add: nan_def)
  show ?thesis
    using q g inst
    by (simp add: gaze_to_board_def Let_def eye_to_board_def nan_def hom_apply_nan written2D_def)
qed

lemma missing_right:
  assumes I: "\<forall>n p q. isnan (fst (I n p (nan, nan, nan) q))"
    and g: "rGazeVec g = (nan, nan, nan)" and p: "boardPose idx \<noteq> None"
  shows "map_option gazeBoard2DRight (fst (gaze_to_board I R RCam cp boardPose idx fts g)) = Some (nan, nan)"
proof -
  from p obtain rVec tVec where q: "boardPose idx = Some (rVec, tVec)" by auto
  have "isnan (fst (I (board_normal (R rVec)) (board_point (R rVec) tVec) (nan, nan, nan)
                     (hom_apply RCam cp (gaze_rGazeOrigin g))))"
    using I by blast
  then have inst: "isnan (fst (I (board_normal (R rVec)) (board_point (R rVec) tVec) (None, None, None)
                     (hom_apply RCam cp (gaze_rGazeOrigin g))))"
    by (simp add: nan_def)
  show ?thesis
    using q g inst
    by (simp add: gaze_to_board_def Let_def eye_to_board_def nan_def hom_apply_nan written2D_def)
qed

lemma collect_data_cases:
  "(has_data lGaze2D gw \<and> has_data rGaze2D gw \<longrightarrow>
      collect_data gw lo hi =
        Inr (Binocular (map ts (map snd (interval_samples gw lo hi)))
               (map (\<lambda>s. fst (lGaze2D s)) (map snd (interval_samples gw lo hi)))
               (map (\<lambda>s. snd (lGaze2D s)) (map snd (interval_samples gw lo hi)))
               (map (\<lambda>s. fst (rGaze2D s)) (map snd (interval_samples gw lo hi)))
               (map (\<lambda>s. snd (rGaze2D s)) (map snd (interval_samples gw lo hi))))) \<and>
   (\<not> (has_data lGaze2D gw \<and> has_data rGaze2D gw) \<and> has_data gaze2DRay gw \<longrightarrow>
      collect_data gw lo hi =
        Inr (Average (map ts (map snd (interval_samples gw lo hi)))
               (map (\<lambda>s. fst (gaze2DRay s)) (map snd (interval_samples gw lo hi)))
               (map (\<lambda>s. snd (gaze2DRay s)) (map snd (interval_samples gw lo hi))))) \<and>
   (\<not> (has_data lGaze2D gw \<and> has_data rGaze2D gw) \<and> \<not> has_data gaze2DRay gw \<and>
      has_data gaze2DHomography gw \<longrightarrow>
      collect_data gw lo hi =
        Inr (Average (map ts (map snd (interval_samples gw lo hi)))
               (map (\<lambda>s. fst (gaze2DHomography s)) (map snd (interval_samples gw lo hi)))
               (map (\<lambda>s. snd (gaze2DHomography s)) (map snd (interval_samples gw lo hi))))) \<and>
   (\<not> (has_data lGaze2D gw \<and> has_data rGaze2D gw) \<and> \<not> has_data gaze2DRay gw \<and>
      \<not> has_data gaze2DHomography gw \<longrightarrow>
      collect_data gw lo hi = Inl (RuntimeError ''No data available to process''))"
  by (simp add: collect_data_def Let_def)

lemma collect_data_error:
  "isl (collect_data gw lo hi) =
     (\<not> (has_data lGaze2D gw \<and> has_data rGaze2D gw) \<and> \<not> has_data gaze2DRay gw \<and>
      \<not> has_data gaze2DHomography gw)"
  by (simp add: collect_data_def Let_def)

lemma ex_left: "eye_left (intersect_plane_ray (1 / 1000)) (\<lambda>r. id33) id33 (Some 0, Some 0, Some 0) () (Some 0, Some 0, Some 1) gaze_example
   = ((Some 0, Some 0, Some 0), (Some 0, Some 0, Some 1), Some (Some 0, Some 0))"
  by (simp add: eye_left_def eye_to_board_def gaze_example_def id33_def board_normal_def board_point_def to_board_def
      hom_apply_def mat_vec_def dot_def vadd_def vsub_def smul_def transpose33_def mat_neg_def vneg_def
      intersect_plane_ray_def approx_zero_def isnan_def Let_def)

lemma ex_right: "eye_right (intersect_plane_ray (1 / 1000)) (\<lambda>r. id33) id33 (Some 0, Some 0, Some 0) () (Some 0, Some 0, Some 1) gaze_example
   = ((Some 2, Some 0, Some 0), (Some 2, Some 0, Some 1), Some (Some 2, Some 0))"
  by (simp add: eye_right_def eye_to_board_def gaze_example_def id33_def board_normal_def board_point_def to_board_def
      hom_apply_def mat_vec_def dot_def vadd_def vsub_def smul_def transpose33_def mat_neg_def vneg_def
      intersect_plane_ray_def approx_zero_def isnan_def Let_def)

lemma ex_offsets:
  "snd (gaze_to_board (intersect_plane_ray (1 / 1000)) (\<lambda>r. id33) id33 (Some 0, Some 0, Some 0)
          pose_example 0 10 gaze_example) ''left'' = Some (Some 0, Some 0) \<and>
   snd (gaze_to_board (intersect_plane_ray (1 / 1000)) (\<lambda>r. id33) id33 (Some 0, Some 0, Some 0)
          pose_example 0 10 gaze_example) ''right'' = Some (Some 2, Some 0)"
proof -
  have p: "pose_example 0 = Some ((), (Some 0, Some 0, Some 1))"
    by (simp add: pose_example_def)
  show ?thesis
    using gtb_some [where boardPose = pose_example and idx = 0 and rVec = "()"
        and tVec = "(Some 0, Some 0, Some 1)" and I = "intersect_plane_ray (1 / 1000)"
        and R = "\<lambda>r. id33" and RCam = id33 and cp = "(Some 0, Some 0, Some 0)" and fts = 10
        and g = gaze_example] p
    by (auto simp: ex_left ex_right)
qed

lemma ex_right_no_left:
  "eye_right (intersect_plane_ray (1 / 1000)) (\<lambda>r. id33) id33 (Some 0, Some 0, Some 0) ()
      (Some 0, Some 0, Some 1) gaze_no_left
   = ((Some 2, Some 0, Some 0), (Some 2, Some 0, Some 1), Some (Some 2, Some 0))"
proof -
  have "eye_right (intersect_plane_ray (1 / 1000)) (\<lambda>r. id33) id33 (Some 0, Some 0, Some 0) ()
      (Some 0, Some 0, Some 1) gaze_no_left =
    eye_right (intersect_plane_ray (1 / 1000)) (\<lambda>r. id33) id33 (Some 0, Some 0, Some 0) ()
      (Some 0, Some 0, Some 1) gaze_example"
    by (simp add: eye_right_def gaze_no_left_def)
  then show ?thesis by (simp add: ex_right)
qed

text \<open>
  C9, the counterexample. A recording whose only sample has left-eye data and nothing
  else (no right eye, no ray, no homography): eye data exists, and no position series is
  computed from it; the script raises \<open>RuntimeError('No data available to process')\<close>.
\<close>

theorem left_eye_only_raises:
  "has_data lGaze2D [(0, [left_only_sample])] \<and>
   collect_data [(0, [left_only_sample])] 0 0 = Inl (RuntimeError ''No data available to process'')"
  by (simp add: collect_data_def has_data_def left_only_sample_def isnan_def nan_def)

text \<open>
  C9, as amended. In \<open>c_gazeToBoard.py\<close> the entry \<open>average\<close> of \<open>offsets\<close> exists for
  a sample exactly when both eyes produced a board-plane intersection (the first
  coordinate of the eye's intersection is not \<open>nan\<close>), and it is the mean of the two
  board positions; a sample whose frame has no pose has no entry at all. In
  \<open>e2_determineFixationIntervals.py\<close> the series given to the fixation classifier are the
  left and right eye's series when both eyes have data somewhere in the recording; else
  the series of the 3D-gaze-point ray when it has data; else the homography's when it has
  data; else RuntimeError is raised. The data of one eye alone is never passed on.
\<close>

theorem average_and_classifier_input:
  "(boardPose idx = None \<longrightarrow> gaze_to_board I R RCam cp boardPose idx fts g = (None, Map.empty)) \<and>
   (\<forall>rVec tVec. boardPose idx = Some (rVec, tVec) \<longrightarrow>
      (\<exists>row off. gaze_to_board I R RCam cp boardPose idx fts g = (Some row, off) \<and>
         (off ''left'' \<noteq> None) = (\<not> isnan (fst (gazeCam3DLeft row))) \<and>
         (off ''right'' \<noteq> None) = (\<not> isnan (fst (gazeCam3DRight row))) \<and>
         (off ''average'' \<noteq> None) =
            (\<not> isnan (fst (gazeCam3DLeft row)) \<and> \<not> isnan (fst (gazeCam3DRight row))) \<and>
         (\<forall>lx ly rx ry. off ''left'' = Some (lx, ly) \<and> off ''right'' = Some (rx, ry) \<longrightarrow>
             off ''average'' = Some (fdiv (fadd lx rx) (Some 2), fdiv (fadd ly ry) (Some 2))))) \<and>
   (has_data lGaze2D gw \<and> has_data rGaze2D gw \<longrightarrow>
      collect_data gw lo hi =
        Inr (Binocular (map ts (map snd (interval_samples gw lo hi)))
               (map (\<lambda>s. fst (lGaze2D s)) (map snd (interval_samples gw lo hi)))
               (map (\<lambda>s. snd (lGaze2D s)) (map snd (interval_samples gw lo hi)))
               (map (\<lambda>s. fst (rGaze2D s)) (map snd (interval_samples gw lo hi)))
               (map (\<lambda>s. snd (rGaze2D s)) (map snd (interval_samples gw lo hi))))) \<and>
   (\<not> (has_data lGaze2D gw \<and> has_data rGaze2D gw) \<and> has_data gaze2DRay gw \<longrightarrow>
      collect_data gw lo hi =
        Inr (Average (map ts (map snd (interval_samples gw lo hi)))
               (map (\<lambda>s. fst (gaze2DRay s)) (map snd (interval_samples gw lo hi)))
               (map (\<lambda>s. snd (gaze2DRay s)) (map snd (interval_samples gw lo hi))))) \<and>
   (\<not> (has_data lGaze2D gw \<and> has_data rGaze2D gw) \<and> \<not> has_data gaze2DRay gw \<and>
      has_data gaze2DHomography gw \<longrightarrow>
      collect_data gw lo hi =
        Inr (Average (map ts (map snd (interval_samples gw lo hi)))
               (map (\<lambda>s. fst (gaze2DHomography s)) (map snd (interval_samples gw lo hi)))
               (map (\<lambda>s. snd (gaze2DHomography s)) (map snd (interval_samples gw lo hi))))) \<and>
   (\<not> (has_data lGaze2D gw \<and> has_data rGaze2D gw) \<and> \<not> has_data gaze2DRay gw \<and>
      \<not> has_data gaze2DHomography gw \<longrightarrow>
      collect_data gw lo hi = Inl (RuntimeError ''No data available to process''))"
  using gtb_none [of boardPose idx I R RCam cp fts g]
        average_cases [where boardPose = boardPose and idx = idx and I = I and R = R
          and RCam = RCam and cp = cp and fts = fts and g = g]
        collect_data_cases [of gw lo hi]
  by blast

theorem average_and_classifier_input_witness:
  "snd (gaze_to_board (intersect_plane_ray (1 / 1000)) (\<lambda>r. id33) id33 (Some 0, Some 0, Some 0)
          pose_example 0 10 gaze_example) ''average'' = Some (Some 1, Some 0) \<and>
   gaze_to_board (intersect_plane_ray (1 / 1000)) (\<lambda>r. id33) id33 (Some 0, Some 0, Some 0)
          pose_example 1 10 gaze_example = (None, Map.empty) \<and>
   collect_data [(0, [both_eyes_sample])] 0 0 =
     Inr (Binocular [40] [Some 0] [Some 0] [Some 2] [Some 0])"
proof -
  have p: "pose_example 0 = Some ((), (Some 0, Some 0, Some 1))" and q: "pose_example 1 = None"
    by (simp_all add: pose_example_def)
  have d: "has_data lGaze2D [(0, [both_eyes_sample])] \<and> has_data rGaze2D [(0, [both_eyes_sample])]"
    by (simp add: has_data_def both_eyes_sample_def isnan_def)
  have a: "snd (gaze_to_board (intersect_plane_ray (1 / 1000)) (\<lambda>r. id33) id33 (Some 0, Some 0, Some 0)
          pose_example 0 10 gaze_example) ''average'' = Some (Some 1, Some 0)"
  proof -
    let ?G = "gaze_to_board (intersect_plane_ray (1 / 1000)) (\<lambda>r. id33) id33 (Some 0, Some 0, Some 0)
          pose_example 0 10 gaze_example"
    from average_and_classifier_input [where boardPose = pose_example and idx = 0
        and I = "intersect_plane_ray (1 / 1000)"
        and R = "\<lambda>r. id33" and RCam = id33 and cp = "(Some 0, Some 0, Some 0)" and fts = 10
        and g = gaze_example] p
    obtain row off where G: "?G = (Some row, off)"
      and av: "\<forall>lx ly rx ry. off ''left'' = Some (lx, ly) \<and> off ''right'' = Some (rx, ry) \<longrightarrow>
             off ''average'' = Some (fdiv (fadd lx rx) (Some 2), fdiv (fadd ly ry) (Some 2))"
      by blast
    from G ex_offsets have "off ''left'' = Some (Some 0, Some 0)" and "off ''right'' = Some (Some 2, Some 0)"
      by simp_all
    with av have "off ''average'' = Some (fdiv (fadd (Some 0) (Some 2)) (Some 2), fdiv (fadd (Some 0) (Some 0)) (Some 2))"
      by blast
    then show ?thesis using G by simp
  qed
  have b: "gaze_to_board (intersect_plane_ray (1 / 1000)) (\<lambda>r. id33) id33 (Some 0, Some 0, Some 0)
          pose_example 1 10 gaze_example = (None, Map.empty)"
    using average_and_classifier_input [where boardPose = pose_example and idx = 1
        and I = "intersect_plane_ray (1 / 1000)"
        and R = "\<lambda>r. id33" and RCam = id33 and cp = "(Some 0, Some 0, Some 0)" and fts = 10
        and g = gaze_example] q
    by blast
  have c: "collect_data [(0, [both_eyes_sample])] 0 0 =
     Inr (Binocular [40] [Some 0] [Some 0] [Some 2] [Some 0])"
  proof -
    let ?gw = "[(0, [both_eyes_sample])]"
    have "collect_data ?gw 0 0 =
        Inr (Binocular (map ts (map snd (interval_samples ?gw 0 0)))
               (map (\<lambda>s. fst (lGaze2D s)) (map snd (interval_samples ?gw 0 0)))
               (map (\<lambda>s. snd (lGaze2D s)) (map snd (interval_samples ?gw 0 0)))
               (map (\<lambda>s. fst (rGaze2D s)) (map snd (interval_samples ?gw 0 0)))
               (map (\<lambda>s. snd (rGaze2D s)) (map snd (interval_samples ?gw 0 0))))"
      using average_and_classifier_input [where gw = ?gw and lo = 0 and hi = 0
          and boardPose = pose_example and idx = 0 and I = "intersect_plane_ray (1 / 1000)"
          and R = "\<lambda>r. id33" and RCam = id33 and cp = "(Some 0, Some 0, Some 0)" and fts = 10
          and g = gaze_example] d
      by blast
    then show ?thesis
      by (simp add: interval_samples_def both_eyes_sample_def)
  qed
  show ?thesis using a b c by simp
qed

text \<open>
  C8, the counterexample. A recording whose only sample has no board position for any
  method (all \<open>nan\<close>): the missing data is raised as an error,
  \<open>RuntimeError('No data available to process')\<close>.
\<close>

theorem no_data_raises:
  "collect_data [(0, [no_data_sample])] 0 0 = Inl (RuntimeError ''No data available to process'')"
  by (simp add: collect_data_def has_data_def no_data_sample_def isnan_def nan_def)

text \<open>
  C8, as amended. In \<open>c_gazeToBoard.py\<close> a sample whose frame has no pose gives no row; a
  sample whose frame has a pose gives a row, in which an eye whose intersection with the
  board is \<open>nan\<close> (first coordinate) has the board position \<open>(nan, nan)\<close> and no entry in
  \<open>offsets\<close>; what is written for the right eye, the 3D gaze point and the board does not
  depend on the left eye's data, and the same with the eyes exchanged; and when the
  intersection routine gives \<open>nan\<close> for a \<open>nan\<close> direction, an eye without data has the
  board position \<open>(nan, nan)\<close>. In \<open>e2_determineFixationIntervals.py\<close> an error is
  raised exactly when no sample of the recording has data for both eyes, nor for the ray,
  nor for the homography.
\<close>

theorem missing_data_outcomes:
  "(boardPose idx = None \<longrightarrow> gaze_to_board I R RCam cp boardPose idx fts g = (None, Map.empty)) \<and>
   (\<forall>rVec tVec. boardPose idx = Some (rVec, tVec) \<longrightarrow>
      (\<exists>row off. gaze_to_board I R RCam cp boardPose idx fts g = (Some row, off) \<and>
         (isnan (fst (gazeCam3DLeft row)) \<longrightarrow> gazeBoard2DLeft row = (nan, nan) \<and> off ''left'' = None) \<and>
         (isnan (fst (gazeCam3DRight row)) \<longrightarrow> gazeBoard2DRight row = (nan, nan) \<and> off ''right'' = None))) \<and>
   map_option not_left (fst (gaze_to_board I R RCam cp boardPose idx fts (g\<lparr>lGazeVec := v, gaze_lGazeOrigin := w\<rparr>))) =
     map_option not_left (fst (gaze_to_board I R RCam cp boardPose idx fts g)) \<and>
   map_option not_right (fst (gaze_to_board I R RCam cp boardPose idx fts (g\<lparr>rGazeVec := v, gaze_rGazeOrigin := w\<rparr>))) =
     map_option not_right (fst (gaze_to_board I R RCam cp boardPose idx fts g)) \<and>
   ((\<forall>n p q. isnan (fst (I n p (nan, nan, nan) q))) \<and> lGazeVec g = (nan, nan, nan) \<and> boardPose idx \<noteq> None \<longrightarrow>
      map_option gazeBoard2DLeft (fst (gaze_to_board I R RCam cp boardPose idx fts g)) = Some (nan, nan)) \<and>
   ((\<forall>n p q. isnan (fst (I n p (nan, nan, nan) q))) \<and> rGazeVec g = (nan, nan, nan) \<and> boardPose idx \<noteq> None \<longrightarrow>
      map_option gazeBoard2DRight (fst (gaze_to_board I R RCam cp boardPose idx fts g)) = Some (nan, nan)) \<and>
   isl (collect_data gw lo hi) =
     (\<not> (has_data lGaze2D gw \<and> has_data rGaze2D gw) \<and> \<not> has_data gaze2DRay gw \<and>
      \<not> has_data gaze2DHomography gw)"
proof (intro conjI)
  show "boardPose idx = None \<longrightarrow> gaze_to_board I R RCam cp boardPose idx fts g = (None, Map.empty)"
    by (simp add: gtb_none)
  show "\<forall>rVec tVec. boardPose idx = Some (rVec, tVec) \<longrightarrow>
      (\<exists>row off. gaze_to_board I R RCam cp boardPose idx fts g = (Some row, off) \<and>
         (isnan (fst (gazeCam3DLeft row)) \<longrightarrow> gazeBoard2DLeft row = (nan, nan) \<and> off ''left'' = None) \<and>
         (isnan (fst (gazeCam3DRight row)) \<longrightarrow> gazeBoard2DRight row = (nan, nan) \<and> off ''right'' = None))"
    using nan_cases [where boardPose = boardPose and idx = idx and I = I and R = R
          and RCam = RCam and cp = cp and fts = fts and g = g]
    by blast
  show "map_option not_left (fst (gaze_to_board I R RCam cp boardPose idx fts (g\<lparr>lGazeVec := v, gaze_lGazeOrigin := w\<rparr>))) =
     map_option not_left (fst (gaze_to_board I R RCam cp boardPose idx fts g))"
    by (rule gtb_not_left)
  show "map_option not_right (fst (gaze_to_board I R RCam cp boardPose idx fts (g\<lparr>rGazeVec := v, gaze_rGazeOrigin := w\<rparr>))) =
     map_option not_right (fst (gaze_to_board I R RCam cp boardPose idx fts g))"
    by (rule gtb_not_right)
  show "(\<forall>n p q. isnan (fst (I n p (nan, nan, nan) q))) \<and> lGazeVec g = (nan, nan, nan) \<and> boardPose idx \<noteq> None \<longrightarrow>
      map_option gazeBoard2DLeft (fst (gaze_to_board I R RCam cp boardPose idx fts g)) = Some (nan, nan)"
    using missing_left [of I g boardPose idx R RCam cp fts]
    by blast
  show "(\<forall>n p q. isnan (fst (I n p (nan, nan, nan) q))) \<and> rGazeVec g = (nan, nan, nan) \<and> boardPose idx \<noteq> None \<longrightarrow>
      map_option gazeBoard2DRight (fst (gaze_to_board I R RCam cp boardPose idx fts g)) = Some (nan, nan)"
    using missing_right [of I g boardPose idx R RCam cp fts]
    by blast
  show "isl (collect_data gw lo hi) =
     (\<not> (has_data lGaze2D gw \<and> has_data rGaze2D gw) \<and> \<not> has_data gaze2DRay gw \<and>
      \<not> has_data gaze2DHomography gw)"
    by (rule collect_data_error)
qed

theorem missing_data_outcomes_witness:
  "map_option gazeBoard2DLeft
     (fst (gaze_to_board (intersect_plane_ray (1 / 1000)) (\<lambda>r. id33) id33 (Some 0, Some 0, Some 0)
             pose_example 0 10 gaze_no_left)) = Some (nan, nan) \<and>
   map_option gazeBoard2DRight
     (fst (gaze_to_board (intersect_plane_ray (1 / 1000)) (\<lambda>r. id33) id33 (Some 0, Some 0, Some 0)
             pose_example 0 10 gaze_no_left)) = Some (Some 2, Some 0) \<and>
   gaze_to_board (intersect_plane_ray (1 / 1000)) (\<lambda>r. id33) id33 (Some 0, Some 0, Some 0)
             pose_example 1 10 gaze_no_left = (None, Map.empty) \<and>
   isl (collect_data [(0, [no_data_sample])] 0 0)"
proof -
  let ?G = "\<lambda>idx. gaze_to_board (intersect_plane_ray (1 / 1000)) (\<lambda>r. id33) id33 (Some 0, Some 0, Some 0)
             pose_example idx 10 gaze_no_left"
  have p: "pose_example 0 = Some ((), (Some 0, Some 0, Some 1))" and p': "pose_example 0 \<noteq> None"
    and q: "pose_example 1 = None"
    by (simp_all add: pose_example_def)
  have I: "\<forall>n p q. isnan (fst (intersect_plane_ray (1 / 1000) n p (nan, nan, nan) q))"
    by (simp add: nan_def ipr_nan_dir isnan_def)
  have g: "lGazeVec gaze_no_left = (nan, nan, nan)"
    by (simp add: gaze_no_left_def)
  have n: "\<not> (has_data lGaze2D [(0, [no_data_sample])] \<and> has_data rGaze2D [(0, [no_data_sample])]) \<and>
      \<not> has_data gaze2DRay [(0, [no_data_sample])] \<and> \<not> has_data gaze2DHomography [(0, [no_data_sample])]"
    by (simp add: has_data_def no_data_sample_def isnan_def nan_def)
  note thm0 = missing_data_outcomes [where I = "intersect_plane_ray (1 / 1000)" and R = "\<lambda>r. id33"
      and RCam = id33 and cp = "(Some 0, Some 0, Some 0)" and boardPose = pose_example and idx = 0
      and fts = 10 and g = gaze_no_left and gw = "[(0, [no_data_sample])]" and lo = 0 and hi = 0]
  note thm1 = missing_data_outcomes [where I = "intersect_plane_ray (1 / 1000)" and R = "\<lambda>r. id33"
      and RCam = id33 and cp = "(Some 0, Some 0, Some 0)" and boardPose = pose_example and idx = 1
      and fts = 10 and g = gaze_no_left and gw = "[(0, [no_data_sample])]" and lo = 0 and hi = 0]
  have a: "map_option gazeBoard2DLeft (fst (?G 0)) = Some (nan, nan)"
    using thm0 I g p' by blast
  have b: "?G 1 = (None, Map.empty)"
    using thm1 q by blast
  have c: "isl (collect_data [(0, [no_data_sample])] 0 0)"
    using thm0 n by blast
  have d: "map_option gazeBoard2DRight (fst (?G 0)) = Some (Some 2, Some 0)"
    using gtb_some [where boardPose = pose_example and idx = 0 and rVec = "()"
        and tVec = "(Some 0, Some 0, Some 1)" and I = "intersect_plane_ray (1 / 1000)"
        and R = "\<lambda>r. id33" and RCam = id33 and cp = "(Some 0, Some 0, Some 0)" and fts = 10
        and g = gaze_no_left] p
    by (auto simp: ex_right_no_left written2D_def)
  show ?thesis using a b c d by simp
qed

section \<open>Properties of the plane-ray intersection\<close>

lemma dot_fin: "dot (fin3 p) (fin3 q) = Some (rdot p q)"
  by (cases p; cases q) (simp add: dot_def fin3_def rdot_def)

lemma vsub_fin: "vsub (fin3 p) (fin3 q) = fin3 (rsub p q)"
  by (cases p; cases q) (simp add: vsub_def fin3_def rsub_def)

lemma ray_fin: "vadd (fin3 origin) (smul (Some t) (fin3 direction)) = fin3 (ray_at origin t direction)"
  by (cases origin; cases direction) (simp add: vadd_def smul_def fin3_def ray_at_def)

lemma ipr_regular:
  assumes "0 < eps" and "eps \<le> \<bar>rdot n d\<bar>"
  shows "intersect_plane_ray eps (fin3 n) (fin3 p) (fin3 d) (fin3 origin) =
     fin3 (ray_at origin (rdot n (rsub p origin) / rdot n d) d)"
proof -
  from assms have nz: "rdot n d \<noteq> 0" by auto
  from assms have na: "\<not> approx_zero eps (Some (rdot n d))"
    by (simp add: approx_zero_def)
  show ?thesis
    using nz na by (simp add: intersect_plane_ray_def dot_fin vsub_fin ray_fin Let_def)
qed

lemma ray_plane_distance:
  "rdot n (rsub (ray_at origin t d) p) = t * rdot n d - rdot n (rsub p origin)"
  by (cases n; cases d; cases p; cases origin)
     (simp add: rdot_def rsub_def ray_at_def algebra_simps)

lemma on_plane:
  assumes "rdot n d \<noteq> 0"
  shows "rdot n (rsub (ray_at origin (rdot n (rsub p origin) / rdot n d) d) p) = 0"
  using assms by (simp add: ray_plane_distance)

lemma ipr_degenerate:
  assumes "\<bar>rdot n d\<bar> < eps"
  shows "intersect_plane_ray eps (fin3 n) (fin3 p) (fin3 d) (fin3 origin) = (nan, nan, nan)"
  using assms by (simp add: intersect_plane_ray_def dot_fin approx_zero_def)

text \<open>
  C2. For a plane given by a normal and a point and a ray given by an origin and a
  direction (finite vectors), with \<open>dot(normal, direction)\<close> not approximately zero, the
  intersection is \<open>origin + t * direction\<close> for
  \<open>t = dot(normal, point - origin) / dot(normal, direction)\<close>, and this point lies on the
  plane; with \<open>dot(normal, direction)\<close> approximately zero (of absolute value below the
  tolerance; exactly zero is the case for every positive tolerance) the result is the
  vector of three \<open>nan\<close>, a value and not an exception.
\<close>

theorem intersect_plane_ray_spec:
  "(0 < eps \<and> eps \<le> \<bar>rdot n d\<bar> \<longrightarrow>
      intersect_plane_ray eps (fin3 n) (fin3 p) (fin3 d) (fin3 origin) =
        fin3 (ray_at origin (rdot n (rsub p origin) / rdot n d) d) \<and>
      rdot n (rsub (ray_at origin (rdot n (rsub p origin) / rdot n d) d) p) = 0) \<and>
   (\<bar>rdot n d\<bar> < eps \<longrightarrow>
      intersect_plane_ray eps (fin3 n) (fin3 p) (fin3 d) (fin3 origin) = (nan, nan, nan))"
proof (intro conjI impI)
  assume a: "0 < eps \<and> eps \<le> \<bar>rdot n d\<bar>"
  then show "intersect_plane_ray eps (fin3 n) (fin3 p) (fin3 d) (fin3 origin) =
        fin3 (ray_at origin (rdot n (rsub p origin) / rdot n d) d)"
    by (simp add: ipr_regular)
  from a have "rdot n d \<noteq> 0" by auto
  then show "rdot n (rsub (ray_at origin (rdot n (rsub p origin) / rdot n d) d) p) = 0"
    by (rule on_plane)
next
  assume "\<bar>rdot n d\<bar> < eps"
  then show "intersect_plane_ray eps (fin3 n) (fin3 p) (fin3 d) (fin3 origin) = (nan, nan, nan)"
    by (rule ipr_degenerate)
qed

theorem intersect_plane_ray_spec_witness:
  "intersect_plane_ray (1 / 1000) (fin3 (0, 0, 1)) (fin3 (0, 0, 1)) (fin3 (1, 0, 2)) (fin3 (2, 0, 0)) =
     fin3 (5 / 2, 0, 1) \<and>
   intersect_plane_ray (1 / 1000) (fin3 (0, 0, 1)) (fin3 (0, 0, 1)) (fin3 (1, 0, 0)) (fin3 (2, 0, 0)) =
     (nan, nan, nan)"
  using intersect_plane_ray_spec [of "1 / 1000" "(0, 0, 1)" "(1, 0, 2)" "(0, 0, 1)" "(2, 0, 0)"]
        intersect_plane_ray_spec [of "1 / 1000" "(0, 0, 1)" "(1, 0, 0)" "(0, 0, 1)" "(2, 0, 0)"]
  by (simp add: rdot_def rsub_def ray_at_def)

section \<open>Properties of e1_computeOffsetsToTargets\<close>

lemma sample_offsets_pose:
  assumes "boardPose k = Some (rVec, tVec)" and "e < 4" and "ti < length targets"
  shows "sample_offsets ab R boardPose targets (k, s) ! e ! ti =
     target_offset ab (R rVec) tVec s e (snd (targets ! ti))"
proof -
  have "sample_offsets ab R boardPose targets (k, s) =
     map (\<lambda>e. map (\<lambda>t. target_offset ab (R rVec) tVec s e (snd t)) targets) [0..<4]"
    using assms(1) by (simp add: sample_offsets_def)
  moreover have "[0..<4] ! e = e" and "e < length [0..<4]"
    using assms(2) by simp_all
  ultimately show ?thesis
    using assms(3) by (simp only: nth_map)
qed

lemma method_inputs_cases:
  "method_inputs e s =
     (if e = 0 then lGazeOrigin s else if e = 1 then rGazeOrigin s else zeros3,
      if e = 0 then lGaze3D s else if e = 1 then rGaze3D s
        else if e = 2 then gaze3DRay s else gaze3DHomography s,
      if e = 0 then lGaze2D s else if e = 1 then rGaze2D s
        else if e = 2 then gaze2DRay s else gaze2DHomography s)"
  by (simp add: method_inputs_def)

lemma target_offset_finite:
  assumes "method_inputs e s = (ori, gazePoint, (Some gx, Some gy))"
    and "ab (vsub (hom_apply RB tVec (Some tx, Some ty, Some 0)) ori) (vsub gazePoint ori) = Some a"
  shows "target_offset ab RB tVec s e (tx, ty) =
     (Some (a * cos (atan2 (gy - ty) (gx - tx))), Some (a * sin (atan2 (gy - ty) (gx - tx))))"
  using assms by (simp add: target_offset_def Let_def lift1_def)

lemma ex_samples: "interval_samples [(0, [both_eyes_sample])] 0 0 = [(0, both_eyes_sample)]"
  by (simp add: interval_samples_def)

lemma atan2_pos_x_axis: "atan2 0 1 = 0"
  by (simp add: atan2_def)

lemma interval_offsets_empty:
  "interval_samples gw lo hi = [] \<Longrightarrow> interval_offsets ab R boardPose targets gw lo hi = Inl ValueError"
  by (simp add: interval_offsets_def)

lemma interval_offsets_nth:
  assumes "n < length (interval_samples gw lo hi)"
  shows "interval_offsets ab R boardPose targets gw lo hi =
           Inr (map (sample_offsets ab R boardPose targets) (interval_samples gw lo hi)) \<and>
         map (sample_offsets ab R boardPose targets) (interval_samples gw lo hi) ! n =
           sample_offsets ab R boardPose targets (interval_samples gw lo hi ! n)"
proof -
  have "interval_samples gw lo hi \<noteq> []"
    using assms by auto
  then show ?thesis
    using assms by (simp add: interval_offsets_def)
qed

text \<open>
  \<open>c_gazeToBoard.py\<close> writes a row of \<open>gazeWorldPos.tsv\<close> for a gaze sample exactly when
  the pose table has a pose for the sample's frame.
\<close>

lemma row_needs_pose:
  "(fst (gaze_to_board I R RCam cp boardPose k fts g) = None) = (boardPose k = None)"
proof (cases "boardPose k")
  case None
  then show ?thesis by (simp add: gtb_none)
next
  case (Some p)
  obtain rVec tVec where "p = (rVec, tVec)" by (cases p)
  with Some have "boardPose k = Some (rVec, tVec)" by simp
  from gtb_some [where boardPose = boardPose and idx = k and rVec = rVec and tVec = tVec
      and I = I and R = R and RCam = RCam and cp = cp and fts = fts and g = g] this
  show ?thesis by auto
qed

lemma offsets_keys:
  "dom (snd (gaze_to_board I R RCam cp boardPose k fts g)) \<subseteq>
     {''3D_gaze_point'', ''left'', ''right'', ''average''}"
  by (auto simp: gaze_to_board_def Let_def split: option.splits prod.splits if_splits)

lemma read_fold_rest:
  "fold (\<lambda>entry poses. poses(bp_frame_idx entry \<mapsto> (bp_rVec entry, bp_tVec entry)))
        (map (\<lambda>entry. entry\<lparr>bp_rest := h entry\<rparr>) table) m =
   fold (\<lambda>entry poses. poses(bp_frame_idx entry \<mapsto> (bp_rVec entry, bp_tVec entry))) table m"
  by (induction table arbitrary: m) simp_all

lemma read_board_pose_rest:
  "read_board_pose (map (\<lambda>entry. entry\<lparr>bp_rest := h entry\<rparr>) table) = read_board_pose table"
  by (simp add: read_board_pose_def read_fold_rest)

lemma read_pose_table_example: "read_board_pose (pose_table_example H) = pose_example"
  by (simp add: read_board_pose_def pose_table_example_def pose_example_def)

lemma ex_row:
  "\<exists>row. fst (gaze_to_board (intersect_plane_ray (1 / 1000)) (\<lambda>r. id33) id33 (Some 0, Some 0, Some 0)
               pose_example 0 10 gaze_example) = Some row"
proof -
  have "pose_example 0 \<noteq> None" by (simp add: pose_example_def)
  then have "fst (gaze_to_board (intersect_plane_ray (1 / 1000)) (\<lambda>r. id33) id33 (Some 0, Some 0, Some 0)
               pose_example 0 10 gaze_example) \<noteq> None"
    by (simp only: row_needs_pose not_False_eq_True)
  then show ?thesis by blast
qed

text \<open>
  C6. The samples of an analysis interval are the rows of \<open>gazeWorldPos.tsv\<close> for the
  frames of the interval, and \<open>c_gazeToBoard.py\<close> writes a row for a gaze sample only
  when the pose table has a pose for the sample's frame: the frame \<open>k\<close> of a sample is
  one for which \<open>gaze_to_board\<close> gave a row, on the pose table that the offsets are
  computed with. For every such sample of an interval, every projection method \<open>e\<close> and
  every target, the offset is \<open>angle * (cos bearing, sin bearing)\<close>: \<open>angle\<close> is
  \<open>angle_between\<close> of the vector from the origin to the target (the target taken to the
  camera frame by the pose of the frame) and the vector from the origin to the method's 3D
  gaze point, the origin being the eye's ray origin for the two eyes and the zero vector
  for the 3D-gaze-point ray and the homography; \<open>bearing\<close> is \<open>atan2\<close> of the board-plane
  differences in y and in x from the target to the method's board position. With finite
  values this is the pair of reals \<open>(a * cos b, a * sin b)\<close>.
\<close>

theorem offsets_formula:
  assumes "n < length (interval_samples gw lo hi)"
    and "interval_samples gw lo hi ! n = (k, s)"
    and "fst (gaze_to_board I R RCam cp boardPose k fts g) = Some row"
    and "e < 4" and "ti < length targets" and "targets ! ti = (tid, tx, ty)"
  shows
    "\<exists>rVec tVec offsets.
       boardPose k = Some (rVec, tVec) \<and>
       interval_offsets ab R boardPose targets gw lo hi = Inr offsets \<and>
       (let ori = (if e = 0 then lGazeOrigin s else if e = 1 then rGazeOrigin s else zeros3);
            gazePoint = (if e = 0 then lGaze3D s else if e = 1 then rGaze3D s
                         else if e = 2 then gaze3DRay s else gaze3DHomography s);
            gazeBoard = (if e = 0 then lGaze2D s else if e = 1 then rGaze2D s
                         else if e = 2 then gaze2DRay s else gaze2DHomography s);
            target = hom_apply (R rVec) tVec (Some tx, Some ty, Some 0);
            angle = ab (vsub target ori) (vsub gazePoint ori);
            bearing = lift2 atan2 (fsub (snd gazeBoard) (Some ty)) (fsub (fst gazeBoard) (Some tx));
            offset = offsets ! n ! e ! ti
        in offset = (fmul angle (lift1 cos bearing), fmul angle (lift1 sin bearing)) \<and>
           (\<forall>a gx gy. angle = Some a \<and> gazeBoard = (Some gx, Some gy) \<longrightarrow>
              offset = (Some (a * cos (atan2 (gy - ty) (gx - tx))),
                        Some (a * sin (atan2 (gy - ty) (gx - tx))))))"
proof -
  have "boardPose k \<noteq> None"
    using assms(3) row_needs_pose [of I R RCam cp boardPose k fts g] by simp
  then obtain rVec tVec where pose: "boardPose k = Some (rVec, tVec)"
    by (cases "boardPose k") auto
  let ?offsets = "map (sample_offsets ab R boardPose targets) (interval_samples gw lo hi)"
  have io: "interval_offsets ab R boardPose targets gw lo hi = Inr ?offsets"
    and nth: "?offsets ! n = sample_offsets ab R boardPose targets (k, s)"
    using interval_offsets_nth [OF assms(1), of ab R boardPose targets] assms(2) by simp_all
  have entry: "?offsets ! n ! e ! ti = target_offset ab (R rVec) tVec s e (tx, ty)"
    unfolding nth
    using sample_offsets_pose [where boardPose = boardPose and k = k and rVec = rVec
        and tVec = tVec and e = e and ti = ti and targets = targets and ab = ab and R = R and s = s]
      pose assms(4,5,6)
    by simp
  have "let ori = (if e = 0 then lGazeOrigin s else if e = 1 then rGazeOrigin s else zeros3);
            gazePoint = (if e = 0 then lGaze3D s else if e = 1 then rGaze3D s
                         else if e = 2 then gaze3DRay s else gaze3DHomography s);
            gazeBoard = (if e = 0 then lGaze2D s else if e = 1 then rGaze2D s
                         else if e = 2 then gaze2DRay s else gaze2DHomography s);
            target = hom_apply (R rVec) tVec (Some tx, Some ty, Some 0);
            angle = ab (vsub target ori) (vsub gazePoint ori);
            bearing = lift2 atan2 (fsub (snd gazeBoard) (Some ty)) (fsub (fst gazeBoard) (Some tx));
            offset = ?offsets ! n ! e ! ti
        in offset = (fmul angle (lift1 cos bearing), fmul angle (lift1 sin bearing)) \<and>
           (\<forall>a gx gy. angle = Some a \<and> gazeBoard = (Some gx, Some gy) \<longrightarrow>
              offset = (Some (a * cos (atan2 (gy - ty) (gx - tx))),
                        Some (a * sin (atan2 (gy - ty) (gx - tx)))))"
    unfolding entry
    by (auto simp: target_offset_def method_inputs_cases Let_def lift1_def)
  with pose io show ?thesis by blast
qed

theorem offsets_formula_witness:
  "\<exists>offsets.
     interval_offsets angle_example (\<lambda>r. id33) pose_example [(1, - 1, 0)] [(0, [both_eyes_sample])] 0 0
       = Inr offsets \<and>
     offsets ! 0 ! 0 ! 0 = (Some 3, Some 0) \<and>
     offsets ! 0 ! 3 ! 0 = (Some (3 * cos (atan2 0 2)), Some (3 * sin (atan2 0 2)))"
proof -
  have p: "pose_example 0 = Some ((), (Some 0, Some 0, Some 1))"
    by (simp add: pose_example_def)
  have l: "lGaze2D both_eyes_sample = (Some 0, Some 0)"
    and h: "gaze2DHomography both_eyes_sample = (Some 1, Some 0)"
    by (simp_all add: both_eyes_sample_def)
  obtain row where row: "fst (gaze_to_board (intersect_plane_ray (1 / 1000)) (\<lambda>r. id33) id33
      (Some 0, Some 0, Some 0) pose_example 0 10 gaze_example) = Some row"
    using ex_row by blast
  have a: "\<exists>offsets.
     interval_offsets angle_example (\<lambda>r. id33) pose_example [(1, - 1, 0)] [(0, [both_eyes_sample])] 0 0
       = Inr offsets \<and> offsets ! 0 ! 0 ! 0 = (Some 3, Some 0)"
    using offsets_formula [where gw = "[(0, [both_eyes_sample])]" and lo = 0 and hi = 0 and n = 0
        and k = 0 and s = both_eyes_sample and boardPose = pose_example
        and e = 0 and ti = 0 and targets = "[(1, - 1, 0)]"
        and tid = 1 and tx = "- 1" and ty = 0 and ab = angle_example and R = "\<lambda>r. id33"
        and I = "intersect_plane_ray (1 / 1000)" and RCam = id33 and cp = "(Some 0, Some 0, Some 0)"
        and fts = 10 and g = gaze_example and row = row] row
    by (simp add: ex_samples p l Let_def angle_example_def atan2_pos_x_axis)
  have b: "\<exists>offsets.
     interval_offsets angle_example (\<lambda>r. id33) pose_example [(1, - 1, 0)] [(0, [both_eyes_sample])] 0 0
       = Inr offsets \<and> offsets ! 0 ! 3 ! 0 = (Some (3 * cos (atan2 0 2)), Some (3 * sin (atan2 0 2)))"
    using offsets_formula [where gw = "[(0, [both_eyes_sample])]" and lo = 0 and hi = 0 and n = 0
        and k = 0 and s = both_eyes_sample and boardPose = pose_example
        and e = 3 and ti = 0 and targets = "[(1, - 1, 0)]"
        and tid = 1 and tx = "- 1" and ty = 0 and ab = angle_example and R = "\<lambda>r. id33"
        and I = "intersect_plane_ray (1 / 1000)" and RCam = id33 and cp = "(Some 0, Some 0, Some 0)"
        and fts = 10 and g = gaze_example and row = row] row
    by (simp add: ex_samples p h Let_def angle_example_def)
  from a b show ?thesis by auto
qed

text \<open>
  C7, the counterexample. Frame 0 has a row in the pose table, with a pose and a
  homography; one gaze sample belongs to the frame. The projection gives the same row and
  the same board positions whether the homography of the frame is the identity or a
  scaling by 2, and the board positions it computes are those of the 3D gaze point, the
  left eye, the right eye and their average: no homography is applied to the gaze point,
  and no board-plane point of a homography method is produced.
\<close>

theorem homography_not_applied:
  "gaze_to_board (intersect_plane_ray (1 / 1000)) (\<lambda>r. id33) id33 (Some 0, Some 0, Some 0)
      (read_board_pose (pose_table_example [1, 0, 0, 0, 1, 0, 0, 0, 1])) 0 10 gaze_example =
   gaze_to_board (intersect_plane_ray (1 / 1000)) (\<lambda>r. id33) id33 (Some 0, Some 0, Some 0)
      (read_board_pose (pose_table_example [2, 0, 0, 0, 2, 0, 0, 0, 1])) 0 10 gaze_example \<and>
   dom (snd (gaze_to_board (intersect_plane_ray (1 / 1000)) (\<lambda>r. id33) id33 (Some 0, Some 0, Some 0)
      (read_board_pose (pose_table_example [2, 0, 0, 0, 2, 0, 0, 0, 1])) 0 10 gaze_example)) =
     {''3D_gaze_point'', ''left'', ''right'', ''average''}"
proof -
  let ?out = "gaze_to_board (intersect_plane_ray (1 / 1000)) (\<lambda>r. id33) id33 (Some 0, Some 0, Some 0)
      pose_example 0 10 gaze_example"
  have p: "pose_example 0 = Some ((), (Some 0, Some 0, Some 1))"
    by (simp add: pose_example_def)
  obtain row off where out: "?out = (Some row, off)"
    and le: "off ''left'' = snd (snd (eye_left (intersect_plane_ray (1 / 1000)) (\<lambda>r. id33) id33
                (Some 0, Some 0, Some 0) () (Some 0, Some 0, Some 1) gaze_example))"
    and ri: "off ''right'' = snd (snd (eye_right (intersect_plane_ray (1 / 1000)) (\<lambda>r. id33) id33
                (Some 0, Some 0, Some 0) () (Some 0, Some 0, Some 1) gaze_example))"
    and av: "off ''average'' =
       (case (snd (snd (eye_left (intersect_plane_ray (1 / 1000)) (\<lambda>r. id33) id33
                (Some 0, Some 0, Some 0) () (Some 0, Some 0, Some 1) gaze_example)),
              snd (snd (eye_right (intersect_plane_ray (1 / 1000)) (\<lambda>r. id33) id33
                (Some 0, Some 0, Some 0) () (Some 0, Some 0, Some 1) gaze_example))) of
          (Some (lx, ly), Some (rx, ry)) \<Rightarrow> Some (fdiv (fadd lx rx) (Some 2), fdiv (fadd ly ry) (Some 2))
        | _ \<Rightarrow> None)"
    using gtb_some [where boardPose = pose_example and idx = 0 and rVec = "()"
        and tVec = "(Some 0, Some 0, Some 1)" and I = "intersect_plane_ray (1 / 1000)"
        and R = "\<lambda>r. id33" and RCam = id33 and cp = "(Some 0, Some 0, Some 0)" and fts = 10
        and g = gaze_example] p
    by blast
  have g3: "off ''3D_gaze_point'' \<noteq> None"
    using out p by (auto simp: gaze_to_board_def Let_def split: option.splits prod.splits)
  have sub: "dom off \<subseteq> {''3D_gaze_point'', ''left'', ''right'', ''average''}"
    using offsets_keys [of "intersect_plane_ray (1 / 1000)" "\<lambda>r. id33" id33
        "(Some 0, Some 0, Some 0)" pose_example 0 10 gaze_example]
    by (simp add: out)
  have "off ''left'' \<noteq> None" "off ''right'' \<noteq> None" "off ''average'' \<noteq> None"
    by (simp_all add: le ri av ex_left ex_right)
  with g3 have "{''3D_gaze_point'', ''left'', ''right'', ''average''} \<subseteq> dom off"
    by (simp add: dom_def)
  with sub have "dom off = {''3D_gaze_point'', ''left'', ''right'', ''average''}"
    by (rule equalityI)
  then show ?thesis
    by (simp add: read_pose_table_example out)
qed

text \<open>
  C7, as amended. \<open>c_gazeToBoard.py\<close> applies no homography to the gaze point. What the
  pose table holds for a frame besides the pose (its homography) has no effect on the
  projection of a gaze sample; a row is written for the sample exactly when the frame has
  a 3D pose; and the board positions computed are at most those of the 3D gaze point, the
  left eye, the right eye and the average of the two eyes. Downstream, for a sample of a
  frame for which a row was written, the offset of the homography method is computed from
  the homography gaze point and board position stored with the sample and from the
  target taken to the camera frame by the frame's 3D pose.
\<close>

theorem homography_method_uses_pose:
  "gaze_to_board I R RCam cp (read_board_pose (map (\<lambda>entry. entry\<lparr>bp_rest := h entry\<rparr>) table)) k fts g =
     gaze_to_board I R RCam cp (read_board_pose table) k fts g \<and>
   (fst (gaze_to_board I R RCam cp boardPose k fts g) = None) = (boardPose k = None) \<and>
   dom (snd (gaze_to_board I R RCam cp boardPose k fts g)) \<subseteq>
     {''3D_gaze_point'', ''left'', ''right'', ''average''} \<and>
   (fst (gaze_to_board I R RCam cp boardPose k fts g) \<noteq> None \<and> ti < length targets \<longrightarrow>
      (\<exists>rVec tVec. boardPose k = Some (rVec, tVec) \<and>
         sample_offsets ab R boardPose targets (k, s) ! 3 ! ti =
           (let target = hom_apply (R rVec) tVec
                           (Some (fst (snd (targets ! ti))), Some (snd (snd (targets ! ti))), Some 0);
                angle = ab (vsub target zeros3) (vsub (gaze3DHomography s) zeros3);
                bearing = lift2 atan2 (fsub (snd (gaze2DHomography s)) (Some (snd (snd (targets ! ti)))))
                                      (fsub (fst (gaze2DHomography s)) (Some (fst (snd (targets ! ti)))))
            in (fmul angle (lift1 cos bearing), fmul angle (lift1 sin bearing)))))"
proof (intro conjI impI)
  show "gaze_to_board I R RCam cp (read_board_pose (map (\<lambda>entry. entry\<lparr>bp_rest := h entry\<rparr>) table)) k fts g =
     gaze_to_board I R RCam cp (read_board_pose table) k fts g"
    by (simp only: read_board_pose_rest)
  show "(fst (gaze_to_board I R RCam cp boardPose k fts g) = None) = (boardPose k = None)"
    by (rule row_needs_pose)
  show "dom (snd (gaze_to_board I R RCam cp boardPose k fts g)) \<subseteq>
     {''3D_gaze_point'', ''left'', ''right'', ''average''}"
    by (rule offsets_keys)
next
  assume a: "fst (gaze_to_board I R RCam cp boardPose k fts g) \<noteq> None \<and> ti < length targets"
  then have "boardPose k \<noteq> None"
    by (simp add: row_needs_pose)
  then obtain rVec tVec where pose: "boardPose k = Some (rVec, tVec)"
    by (cases "boardPose k") auto
  have "sample_offsets ab R boardPose targets (k, s) ! 3 ! ti =
      target_offset ab (R rVec) tVec s 3 (snd (targets ! ti))"
    using sample_offsets_pose [where boardPose = boardPose and k = k and rVec = rVec
        and tVec = tVec and e = 3 and ti = ti and targets = targets and ab = ab and R = R and s = s]
      a pose
    by simp
  then have "sample_offsets ab R boardPose targets (k, s) ! 3 ! ti =
        (let target = hom_apply (R rVec) tVec
                           (Some (fst (snd (targets ! ti))), Some (snd (snd (targets ! ti))), Some 0);
             angle = ab (vsub target zeros3) (vsub (gaze3DHomography s) zeros3);
             bearing = lift2 atan2 (fsub (snd (gaze2DHomography s)) (Some (snd (snd (targets ! ti)))))
                                   (fsub (fst (gaze2DHomography s)) (Some (fst (snd (targets ! ti)))))
         in (fmul angle (lift1 cos bearing), fmul angle (lift1 sin bearing)))"
    by (simp add: target_offset_def method_inputs_def Let_def)
  with pose show "\<exists>rVec tVec. boardPose k = Some (rVec, tVec) \<and>
         sample_offsets ab R boardPose targets (k, s) ! 3 ! ti =
           (let target = hom_apply (R rVec) tVec
                           (Some (fst (snd (targets ! ti))), Some (snd (snd (targets ! ti))), Some 0);
                angle = ab (vsub target zeros3) (vsub (gaze3DHomography s) zeros3);
                bearing = lift2 atan2 (fsub (snd (gaze2DHomography s)) (Some (snd (snd (targets ! ti)))))
                                      (fsub (fst (gaze2DHomography s)) (Some (fst (snd (targets ! ti)))))
            in (fmul angle (lift1 cos bearing), fmul angle (lift1 sin bearing)))"
    by blast
qed

theorem homography_method_uses_pose_witness:
  "fst (gaze_to_board (intersect_plane_ray (1 / 1000)) (\<lambda>r. id33) id33 (Some 0, Some 0, Some 0)
      pose_example 0 10 gaze_example) \<noteq> None \<and>
   sample_offsets angle_example (\<lambda>r. id33) pose_example [(1, - 1, 0)] (0, both_eyes_sample) ! 3 ! 0 =
     (Some (3 * cos (atan2 0 2)), Some (3 * sin (atan2 0 2)))"
proof -
  have p: "pose_example 0 = Some ((), (Some 0, Some 0, Some 1))"
    by (simp add: pose_example_def)
  have h: "gaze2DHomography both_eyes_sample = (Some 1, Some 0)"
    by (simp add: both_eyes_sample_def)
  note t = homography_method_uses_pose [where boardPose = pose_example and k = 0 and ti = 0
      and targets = "[(1, - 1, 0)]" and ab = angle_example and R = "\<lambda>r. id33" and s = both_eyes_sample
      and I = "intersect_plane_ray (1 / 1000)" and RCam = id33 and cp = "(Some 0, Some 0, Some 0)"
      and fts = 10 and g = gaze_example and table = "pose_table_example []" and h = bp_rest]
  have a: "fst (gaze_to_board (intersect_plane_ray (1 / 1000)) (\<lambda>r. id33) id33 (Some 0, Some 0, Some 0)
      pose_example 0 10 gaze_example) \<noteq> None"
    using t p by simp
  have "\<exists>rVec tVec. pose_example 0 = Some (rVec, tVec) \<and>
      sample_offsets angle_example (\<lambda>r. id33) pose_example [(1, - 1, 0)] (0, both_eyes_sample) ! 3 ! 0 =
        (let target = hom_apply id33 tVec (Some (- 1), Some 0, Some 0);
             angle = angle_example (vsub target zeros3) (vsub (gaze3DHomography both_eyes_sample) zeros3);
             bearing = lift2 atan2 (fsub (snd (gaze2DHomography both_eyes_sample)) (Some 0))
                                   (fsub (fst (gaze2DHomography both_eyes_sample)) (Some (- 1)))
         in (fmul angle (lift1 cos bearing), fmul angle (lift1 sin bearing)))"
    using t a by simp
  then have b: "sample_offsets angle_example (\<lambda>r. id33) pose_example [(1, - 1, 0)] (0, both_eyes_sample) ! 3 ! 0 =
     (Some (3 * cos (atan2 0 2)), Some (3 * sin (atan2 0 2)))"
    by (auto simp: p h Let_def angle_example_def)
  from a b show ?thesis by simp
qed


end
